theory Spec2Isabelle
  imports Complex_Main "HOL-Library.Log_Nat"
begin

section \<open>Z-Wave garage door (components/garage\_door/zwave.py)\<close>

text \<open>
  A Z-Wave value as the adapter sees it: its id, the id of the node that owns it, its
  command class, its index and its payload. Node objects are compared by identity in
  the source (\<^verbatim>\<open>self._value.node == value.node\<close>); a node is identified here by
  its node id.
\<close>

record zvalue =
  value_id :: nat
  node :: nat
  command_class :: nat
  index :: nat
  zdata :: bool

text \<open>
  A node holds its values in a dictionary keyed by value id; the association list keeps
  the dictionary's iteration order.
\<close>

record znode =
  node_id :: nat
  values_of :: "(nat \<times> zvalue) list"

definition COMMAND_CLASS_SWITCH_BINARY :: nat where
  "COMMAND_CLASS_SWITCH_BINARY = 0x25"

text \<open>
  \<^verbatim>\<open>node.get_values(class_id=...)\<close> of the Z-Wave library: the sub-dictionary of
  the node's values whose command class is the requested one.
\<close>

definition get_values :: "znode \<Rightarrow> nat \<Rightarrow> (nat \<times> zvalue) list" where
  "get_values n class_id = filter (\<lambda>(k, v). command_class v = class_id) (values_of n)"

text \<open>
  The entity: the bound value, the bound node, and the number of state refreshes it has
  requested from the host (\<^verbatim>\<open>update_ha_state(True)\<close> is a call into the host).
\<close>

record ZwaveGarageDoor =
  priv_value :: zvalue
  priv_node :: znode
  refresh_requests :: nat

definition value_changed :: "ZwaveGarageDoor \<Rightarrow> zvalue \<Rightarrow> ZwaveGarageDoor" where
  "value_changed self v =
     (if node (priv_value self) = node v
      then self\<lparr>refresh_requests := Suc (refresh_requests self)\<rparr>
      else self)"

text \<open>
  The loop of \<^verbatim>\<open>is_closed\<close>: the first value in iteration order that passes the
  test decides; falling off the end of the loop returns Python's \<^verbatim>\<open>None\<close>.
\<close>

fun is_closed_loop :: "zvalue list \<Rightarrow> bool option" where
  "is_closed_loop [] = None"
| "is_closed_loop (v # vs) =
     (if command_class v = 37 \<and> index v = 0 then Some (zdata v) else is_closed_loop vs)"

definition is_closed :: "ZwaveGarageDoor \<Rightarrow> bool option" where
  "is_closed self =
     is_closed_loop (map snd (get_values (priv_node self) COMMAND_CLASS_SWITCH_BINARY))"

section \<open>Forecast.io sensor (components/sensor/forecast.py)\<close>

subsection \<open>Strings: split and title\<close>

text \<open>
  Characters are code points below 256; only the ASCII letters are cased, which is what
  Python's \<^verbatim>\<open>str.title\<close> does on ASCII text.
\<close>

definition is_lower :: "char \<Rightarrow> bool" where
  "is_lower c = (97 \<le> (of_char c :: nat) \<and> (of_char c :: nat) \<le> 122)"

definition is_upper :: "char \<Rightarrow> bool" where
  "is_upper c = (65 \<le> (of_char c :: nat) \<and> (of_char c :: nat) \<le> 90)"

definition to_upper :: "char \<Rightarrow> char" where
  "to_upper c = (if is_lower c then char_of ((of_char c :: nat) - 32) else c)"

definition to_lower :: "char \<Rightarrow> char" where
  "to_lower c = (if is_upper c then char_of ((of_char c :: nat) + 32) else c)"

text \<open>
  \<^verbatim>\<open>str.title\<close>: a cased character that follows an uncased one (or starts the
  string) is upper-cased, a cased character that follows a cased one is lower-cased.
  The flag is Python's \<^verbatim>\<open>previous_is_cased\<close>.
\<close>

fun title_from :: "bool \<Rightarrow> string \<Rightarrow> string" where
  "title_from prev [] = []"
| "title_from prev (c # cs) =
     (if is_lower c then (if prev then c else to_upper c) # title_from True cs
      else if is_upper c then (if prev then to_lower c else c) # title_from True cs
      else c # title_from False cs)"

definition title :: "string \<Rightarrow> string" where
  "title s = title_from False s"

text \<open>
  \<^verbatim>\<open>str.split(sep)\<close> for a one-character separator: the result is never empty, and
  two adjacent separators give an empty component.
\<close>

fun split_chr :: "char \<Rightarrow> string \<Rightarrow> string list" where
  "split_chr sep [] = [[]]"
| "split_chr sep (c # cs) =
     (if c = sep then [] # split_chr sep cs
      else (case split_chr sep cs of
              [] \<Rightarrow> [[c]]
            | w # ws \<Rightarrow> (c # w) # ws))"

definition convert_to_camel :: "string \<Rightarrow> string" where
  "convert_to_camel data =
     (let components = split_chr CHR ''_'' data
      in hd components @ concat (map title (tl components)))"

text \<open>Joining words with underscores, to speak about snake-case keys.\<close>

fun snake :: "string list \<Rightarrow> string" where
  "snake [] = []"
| "snake [w] = w"
| "snake (w # ws) = w @ CHR ''_'' # snake ws"

text \<open>Capitalising a word: its first letter in upper case, the rest as it is.\<close>

fun capitalize :: "string \<Rightarrow> string" where
  "capitalize [] = []"
| "capitalize (c # cs) = to_upper c # cs"

subsection \<open>Python values, exceptions, the service's response\<close>

text \<open>
  A Python float is an IEEE 754 double: a finite one is given by its exact value, a
  rational number; the other ones are the negative zero, the two infinities (the flag
  says whether it is the negative one) and the not-a-number. \<open>Finite 0\<close> is the
  positive zero.
\<close>

datatype pyfloat = Finite rat | NegZero | Infinity bool | NaN

text \<open>
  The values a forecast attribute can hold: \<^verbatim>\<open>None\<close>, a string, an int (unbounded)
  or a float.
\<close>

datatype pyval = PNone | PStr string | PInt int | PFloat pyfloat

text \<open>
  What \<^verbatim>\<open>forecastio.load_forecast\<close> can raise: the four exceptions that
  \<^verbatim>\<open>ForeCastData.update\<close> catches, and any other one.
\<close>

datatype fetch_exc = ConnectError | HTTPError | Timeout | BadValue | Unlisted

datatype exc =
    ValueError fetch_exc
  | Uncaught fetch_exc
  | KeyError string
  | IndexError
  | AttributeError
  | TypeError
  | OverflowError

datatype outcome = Returned | Raised exc

text \<open>
  A data point or data block of the forecast library: its attributes by name.
  \<^verbatim>\<open>getattr(obj, name, default)\<close> gives the default when the object is
  \<^verbatim>\<open>None\<close> or has no such attribute.
\<close>

type_synonym datapoint = "(string \<times> pyval) list"

definition getattr :: "datapoint option \<Rightarrow> string \<Rightarrow> pyval \<Rightarrow> pyval" where
  "getattr obj attr dflt =
     (case obj of
        None \<Rightarrow> dflt
      | Some d \<Rightarrow> (case map_of d attr of None \<Rightarrow> dflt | Some v \<Rightarrow> v))"

text \<open>
  A forecast as \<^verbatim>\<open>load_forecast\<close> returns it: \<^verbatim>\<open>json['flags']['units']\<close>
  (absent when the response has no such entry) and the four sub-views.
\<close>

record forecast =
  flags_units :: "string option"
  currently :: datapoint
  minutely :: datapoint
  hourly :: datapoint
  daily :: datapoint

subsection \<open>Arithmetic on values\<close>

text \<open>Rounding to the nearest integer, ties to the even one.\<close>

definition round_half_even :: "rat \<Rightarrow> int" where
  "round_half_even x =
     (let f = \<lfloor>x\<rfloor>; r = x - of_int f
      in if r < 1 / 2 then f
         else if 1 / 2 < r then f + 1
         else if even f then f else f + 1)"

text \<open>
  The binary exponent of a rational number other than zero: the \<open>e\<close> with
  \<open>2 powi e \<le> \<bar>x\<bar> < 2 powi (e + 1)\<close>. The difference of the bit lengths of numerator
  and denominator is \<open>e\<close> or \<open>e + 1\<close>.
\<close>

definition binade :: "rat \<Rightarrow> int" where
  "binade x =
     (let (a, b) = quotient_of \<bar>x\<bar>; d = bitlen a - bitlen b
      in if 2 powi d \<le> \<bar>x\<bar> then d else d - 1)"

text \<open>
  Rounding a rational number to the double grid, to the nearest with ties to the even
  significand: 53 bits of significand for a normal number, multiples of
  \<open>2 powi (- 1074)\<close> below the normal range. The exponent is not bounded from above
  here: a result of magnitude \<open>2 powi 1024\<close> or more stands for an overflow, which the
  operations below turn into an infinity or an exception.
\<close>

definition to_double :: "rat \<Rightarrow> rat" where
  "to_double x =
     (if x = 0 then 0
      else (let q = max (binade x - 52) (- 1074)
            in of_int (round_half_even (x / 2 powi q)) * 2 powi q))"

definition float_value :: "pyfloat \<Rightarrow> rat option" where
  "float_value f =
     (case f of Finite x \<Rightarrow> Some x | NegZero \<Rightarrow> Some 0 | _ \<Rightarrow> None)"

text \<open>
  \<^verbatim>\<open>x * k\<close> for a float \<open>x\<close> and a non-negative int \<open>k\<close> that converts to a
  double exactly (\<open>k\<close> is 100 in the source): the exact product, rounded once. A zero
  keeps the sign of \<open>x\<close>.
\<close>

definition float_mul :: "pyfloat \<Rightarrow> nat \<Rightarrow> pyfloat" where
  "float_mul f k =
     (case f of
        Finite x \<Rightarrow>
          (let r = to_double (x * of_nat k)
           in if 2 powi 1024 \<le> \<bar>r\<bar> then Infinity (x < 0)
              else if r = 0 \<and> x < 0 then NegZero
              else Finite r)
      | NegZero \<Rightarrow> NegZero
      | Infinity neg \<Rightarrow> if k = 0 then NaN else Infinity neg
      | NaN \<Rightarrow> NaN)"

text \<open>
  \<^verbatim>\<open>round(x, ndigits)\<close> for a float \<open>x\<close> and a small non-negative \<open>ndigits\<close>
  (1 in the source). CPython writes the exact value of \<open>x\<close> as a decimal with
  \<open>ndigits\<close> places, correctly rounded with ties to the even digit, and reads that
  decimal back as a double; a result too large for a double raises. A zero keeps the
  sign of \<open>x\<close>; infinities and the not-a-number round to themselves.
\<close>

definition float_round :: "pyfloat \<Rightarrow> nat \<Rightarrow> exc + pyfloat" where
  "float_round f ndigits =
     (case f of
        Finite x \<Rightarrow>
          (let r = to_double (of_int (round_half_even (x * 10 ^ ndigits)) / 10 ^ ndigits)
           in if 2 powi 1024 \<le> \<bar>r\<bar> then Inl OverflowError
              else if r = 0 \<and> x < 0 then Inr NegZero
              else Inr (Finite r))
      | _ \<Rightarrow> Inr f)"

text \<open>
  \<^verbatim>\<open>round(v, ndigits)\<close> and \<^verbatim>\<open>v * k\<close> on values. An int is rounded to itself
  and multiplied exactly; a string is repeated by \<open>*\<close> and cannot be rounded.
\<close>

definition py_round :: "pyval \<Rightarrow> nat \<Rightarrow> exc + pyval" where
  "py_round v ndigits =
     (case v of
        PInt n \<Rightarrow> Inr (PInt n)
      | PFloat f \<Rightarrow>
          (case float_round f ndigits of Inl e \<Rightarrow> Inl e | Inr r \<Rightarrow> Inr (PFloat r))
      | _ \<Rightarrow> Inl TypeError)"

definition py_mul :: "pyval \<Rightarrow> nat \<Rightarrow> exc + pyval" where
  "py_mul v k =
     (case v of
        PInt n \<Rightarrow> Inr (PInt (n * int k))
      | PFloat f \<Rightarrow> Inr (PFloat (float_mul f k))
      | PStr s \<Rightarrow> Inr (PStr (concat (replicate k s)))
      | PNone \<Rightarrow> Inl TypeError)"

subsection \<open>The sensor-type table\<close>

text \<open>
  Each row is the list of the source: the display name, then the unit for si, us, ca, uk
  and uk2, with \<open>None\<close> for Python's \<^verbatim>\<open>None\<close>. The degree strings are the two
  code points the source file holds.
\<close>

definition deg :: string where
  "deg = [CHR 0xC2, CHR 0xB0]"

definition SENSOR_TYPES :: "(string \<times> string option list) list" where
  "SENSOR_TYPES =
    [(''summary'', [Some ''Summary'', None, None, None, None, None]),
     (''minutely_summary'', [Some ''Minutely Summary'', None, None, None, None, None]),
     (''hourly_summary'', [Some ''Hourly Summary'', None, None, None, None, None]),
     (''daily_summary'', [Some ''Daily Summary'', None, None, None, None, None]),
     (''icon'', [Some ''Icon'', None, None, None, None, None]),
     (''nearest_storm_distance'',
        [Some ''Nearest Storm Distance'',
         Some ''km'', Some ''m'', Some ''km'', Some ''km'', Some ''m'']),
     (''nearest_storm_bearing'',
        [Some ''Nearest Storm Bearing'',
         Some deg, Some deg, Some deg, Some deg, Some deg]),
     (''precip_type'', [Some ''Precip'', None, None, None, None, None]),
     (''precip_intensity'',
        [Some ''Precip Intensity'',
         Some ''mm'', Some ''in'', Some ''mm'', Some ''mm'', Some ''mm'']),
     (''precip_probability'',
        [Some ''Precip Probability'',
         Some ''%'', Some ''%'', Some ''%'', Some ''%'', Some ''%'']),
     (''temperature'',
        [Some ''Temperature'',
         Some (deg @ ''C''), Some (deg @ ''F''), Some (deg @ ''C''),
         Some (deg @ ''C''), Some (deg @ ''C'')]),
     (''apparent_temperature'',
        [Some ''Apparent Temperature'',
         Some (deg @ ''C''), Some (deg @ ''F''), Some (deg @ ''C''),
         Some (deg @ ''C''), Some (deg @ ''C'')]),
     (''dew_point'',
        [Some ''Dew point'',
         Some (deg @ ''C''), Some (deg @ ''F''), Some (deg @ ''C''),
         Some (deg @ ''C''), Some (deg @ ''C'')]),
     (''wind_speed'',
        [Some ''Wind Speed'',
         Some ''m/s'', Some ''mph'', Some ''km/h'', Some ''mph'', Some ''mph'']),
     (''wind_bearing'',
        [Some ''Wind Bearing'', Some deg, Some deg, Some deg, Some deg, Some deg]),
     (''cloud_cover'',
        [Some ''Cloud Coverage'',
         Some ''%'', Some ''%'', Some ''%'', Some ''%'', Some ''%'']),
     (''humidity'',
        [Some ''Humidity'', Some ''%'', Some ''%'', Some ''%'', Some ''%'', Some ''%'']),
     (''pressure'',
        [Some ''Pressure'',
         Some ''mbar'', Some ''mbar'', Some ''mbar'', Some ''mbar'', Some ''mbar'']),
     (''visibility'',
        [Some ''Visibility'',
         Some ''km'', Some ''m'', Some ''km'', Some ''km'', Some ''m'']),
     (''ozone'',
        [Some ''Ozone'', Some ''DU'', Some ''DU'', Some ''DU'', Some ''DU'', Some ''DU''])]"

definition DEFAULT_NAME :: string where
  "DEFAULT_NAME = ''Forecast.io''"

definition MIN_TIME_BETWEEN_UPDATES :: int where
  "MIN_TIME_BETWEEN_UPDATES = 120"

subsection \<open>The throttle\<close>

text \<open>
  Modelled from the spec: the \<^verbatim>\<open>Throttle\<close> decorator of
  \<^verbatim>\<open>homeassistant.util\<close>, which is not among the sources. The spec describes it as
  one small state machine per decorated operation: the time of the last successful run
  and the interval, checked before doing work; within the interval the call returns
  without running the body. The clock reading of a call is its argument \<open>now\<close>
  (seconds). The source's comment on the interval reads: return cached results if the
  last scan was less than this time ago.
\<close>

definition throttled :: "int option \<Rightarrow> int \<Rightarrow> bool" where
  "throttled prev now =
     (case prev of None \<Rightarrow> False | Some t \<Rightarrow> now - t < MIN_TIME_BETWEEN_UPDATES)"

definition Throttle ::
  "('s \<Rightarrow> int option) \<Rightarrow> (int option \<Rightarrow> 's \<Rightarrow> 's) \<Rightarrow> ('s \<Rightarrow> outcome \<times> 's) \<Rightarrow>
   int \<Rightarrow> 's \<Rightarrow> outcome \<times> 's" where
  "Throttle get_last set_last method now self =
     (if throttled (get_last self) now then (Returned, self)
      else (case method self of
              (Returned, self') \<Rightarrow> (Returned, set_last (Some now) self')
            | (Raised e, self') \<Rightarrow> (Raised e, self')))"

subsection \<open>The weather data cache\<close>

text \<open>
  The fields of \<^verbatim>\<open>ForeCastData\<close>, then the throttle state of its five decorated
  methods, then bookkeeping that no operation reads: the number of calls of
  \<^verbatim>\<open>load_forecast\<close> made so far, the clock reading at which the payload in
  \<open>data\<close> was fetched, and for each sub-view the clock reading at which the payload
  it was taken from was fetched.
\<close>

record ForeCastData =
  priv_api_key :: "string option"
  latitude :: rat
  longitude :: rat
  units :: string
  data :: "forecast option"
  unit_system :: "string option"
  data_currently :: "datapoint option"
  data_minutely :: "datapoint option"
  data_hourly :: "datapoint option"
  data_daily :: "datapoint option"
  last_update :: "int option"
  last_update_currently :: "int option"
  last_update_minutely :: "int option"
  last_update_hourly :: "int option"
  last_update_daily :: "int option"
  fetches :: nat
  data_at :: int
  currently_at :: int
  minutely_at :: int
  hourly_at :: int
  daily_at :: int

text \<open>
  The body of \<^verbatim>\<open>update\<close>. \<open>resp\<close> is what \<^verbatim>\<open>load_forecast\<close> does when it
  is called now: it raises or it returns a forecast. The assignment to \<open>data\<close>
  happens only when the call returns; the unit system is read from the new payload.
\<close>

definition update_body ::
  "int \<Rightarrow> fetch_exc + forecast \<Rightarrow> ForeCastData \<Rightarrow> outcome \<times> ForeCastData" where
  "update_body now resp self =
     (let self1 = self\<lparr>fetches := Suc (fetches self)\<rparr>
      in case resp of
           Inl error \<Rightarrow>
             (if error \<in> {ConnectError, HTTPError, Timeout, BadValue}
              then (Raised (ValueError error), self1)
              else (Raised (Uncaught error), self1))
         | Inr d \<Rightarrow>
             (let self2 = self1\<lparr>data := Some d, data_at := now\<rparr>
              in case flags_units d of
                   None \<Rightarrow> (Raised (KeyError ''units''), self2)
                 | Some u \<Rightarrow> (Returned, self2\<lparr>unit_system := Some u\<rparr>)))"

definition update ::
  "ForeCastData \<Rightarrow> int \<Rightarrow> fetch_exc + forecast \<Rightarrow> outcome \<times> ForeCastData" where
  "update self now resp =
     Throttle last_update (\<lambda>t s. s\<lparr>last_update := t\<rparr>) (update_body now resp) now self"

definition update_currently_body :: "ForeCastData \<Rightarrow> outcome \<times> ForeCastData" where
  "update_currently_body self =
     (case data self of
        None \<Rightarrow> (Raised AttributeError, self)
      | Some d \<Rightarrow>
          (Returned, self\<lparr>data_currently := Some (currently d), currently_at := data_at self\<rparr>))"

definition update_currently :: "ForeCastData \<Rightarrow> int \<Rightarrow> outcome \<times> ForeCastData" where
  "update_currently self now =
     Throttle last_update_currently (\<lambda>t s. s\<lparr>last_update_currently := t\<rparr>)
       update_currently_body now self"

definition update_minutely_body :: "ForeCastData \<Rightarrow> outcome \<times> ForeCastData" where
  "update_minutely_body self =
     (case data self of
        None \<Rightarrow> (Raised AttributeError, self)
      | Some d \<Rightarrow>
          (Returned, self\<lparr>data_minutely := Some (minutely d), minutely_at := data_at self\<rparr>))"

definition update_minutely :: "ForeCastData \<Rightarrow> int \<Rightarrow> outcome \<times> ForeCastData" where
  "update_minutely self now =
     Throttle last_update_minutely (\<lambda>t s. s\<lparr>last_update_minutely := t\<rparr>)
       update_minutely_body now self"

definition update_hourly_body :: "ForeCastData \<Rightarrow> outcome \<times> ForeCastData" where
  "update_hourly_body self =
     (case data self of
        None \<Rightarrow> (Raised AttributeError, self)
      | Some d \<Rightarrow>
          (Returned, self\<lparr>data_hourly := Some (hourly d), hourly_at := data_at self\<rparr>))"

definition update_hourly :: "ForeCastData \<Rightarrow> int \<Rightarrow> outcome \<times> ForeCastData" where
  "update_hourly self now =
     Throttle last_update_hourly (\<lambda>t s. s\<lparr>last_update_hourly := t\<rparr>)
       update_hourly_body now self"

definition update_daily_body :: "ForeCastData \<Rightarrow> outcome \<times> ForeCastData" where
  "update_daily_body self =
     (case data self of
        None \<Rightarrow> (Raised AttributeError, self)
      | Some d \<Rightarrow>
          (Returned, self\<lparr>data_daily := Some (daily d), daily_at := data_at self\<rparr>))"

definition update_daily :: "ForeCastData \<Rightarrow> int \<Rightarrow> outcome \<times> ForeCastData" where
  "update_daily self now =
     Throttle last_update_daily (\<lambda>t s. s\<lparr>last_update_daily := t\<rparr>)
       update_daily_body now self"

text \<open>
  The constructor: the fields are set, then \<^verbatim>\<open>update\<close> is called. When that call
  raises, so does the constructor, and the caller gets no object.
\<close>

definition ForeCastData_init ::
  "string option \<Rightarrow> rat \<Rightarrow> rat \<Rightarrow> string \<Rightarrow> int \<Rightarrow> fetch_exc + forecast \<Rightarrow>
   outcome \<times> ForeCastData" where
  "ForeCastData_init api_key lat lon unts now resp =
     update
       \<lparr>priv_api_key = api_key, latitude = lat, longitude = lon, units = unts,
        data = None, unit_system = None,
        data_currently = None, data_minutely = None, data_hourly = None, data_daily = None,
        last_update = None, last_update_currently = None, last_update_minutely = None,
        last_update_hourly = None, last_update_daily = None,
        fetches = 0, data_at = 0, currently_at = 0, minutely_at = 0, hourly_at = 0,
        daily_at = 0\<rparr>
       now resp"

subsection \<open>The sensor entity\<close>

text \<open>
  The fields of \<^verbatim>\<open>ForeCastSensor\<close>. The cache it refers to is shared by all the
  sensors of a platform, so it is not a field: every operation that touches it takes the
  cache and returns it.
\<close>

record ForeCastSensor =
  client_name :: string
  priv_name :: "string option"
  sensor_type :: string
  priv_state :: pyval
  priv_unit_of_measurement :: "string option"

definition unit_index :: "string option \<Rightarrow> nat" where
  "unit_index us =
     (case us of
        None \<Rightarrow> 1
      | Some u \<Rightarrow>
          (case map_of [(''si'', 1), (''us'', 2), (''ca'', 3), (''uk'', 4), (''uk2'', 5)] u of
             None \<Rightarrow> 1
           | Some i \<Rightarrow> i))"

definition update_unit_of_measurement ::
  "ForeCastSensor \<Rightarrow> ForeCastData \<Rightarrow> outcome \<times> ForeCastSensor" where
  "update_unit_of_measurement self forecast_data =
     (case map_of SENSOR_TYPES (sensor_type self) of
        None \<Rightarrow> (Raised (KeyError (sensor_type self)), self)
      | Some row \<Rightarrow>
          (let i = unit_index (unit_system forecast_data)
           in if i < length row
              then (Returned, self\<lparr>priv_unit_of_measurement := row ! i\<rparr>)
              else (Raised IndexError, self)))"

definition get_currently_state :: "ForeCastSensor \<Rightarrow> datapoint option \<Rightarrow> exc + pyval" where
  "get_currently_state self d =
     (let lookup_type = convert_to_camel (sensor_type self);
          state = getattr d lookup_type (PInt 0)
      in if sensor_type self \<in> set [''precip_probability'', ''cloud_cover'', ''humidity'']
         then (case py_mul state 100 of Inl e \<Rightarrow> Inl e | Inr v \<Rightarrow> py_round v 1)
         else if sensor_type self \<in>
                   set [''dew_point'', ''temperature'', ''apparent_temperature'',
                        ''pressure'', ''ozone'']
         then py_round state 1
         else Inr state)"

text \<open>
  \<^verbatim>\<open>ForeCastSensor.update\<close>. The clock is read once for the whole call: the time
  the call itself takes is not modelled.
\<close>

definition sensor_update ::
  "ForeCastSensor \<Rightarrow> ForeCastData \<Rightarrow> int \<Rightarrow> fetch_exc + forecast \<Rightarrow>
   outcome \<times> ForeCastSensor \<times> ForeCastData" where
  "sensor_update self fd now resp =
     (case update fd now resp of
        (Raised e, fd1) \<Rightarrow> (Raised e, self, fd1)
      | (Returned, fd1) \<Rightarrow>
     (case update_unit_of_measurement self fd1 of
        (Raised e, s1) \<Rightarrow> (Raised e, s1, fd1)
      | (Returned, s1) \<Rightarrow>
     (if sensor_type s1 = ''minutely_summary'' then
        (case update_minutely fd1 now of
           (Raised e, fd2) \<Rightarrow> (Raised e, s1, fd2)
         | (Returned, fd2) \<Rightarrow>
             (Returned,
              s1\<lparr>priv_state := getattr (data_minutely fd2) ''summary'' (PStr [])\<rparr>, fd2))
      else if sensor_type s1 = ''hourly_summary'' then
        (case update_hourly fd1 now of
           (Raised e, fd2) \<Rightarrow> (Raised e, s1, fd2)
         | (Returned, fd2) \<Rightarrow>
             (Returned,
              s1\<lparr>priv_state := getattr (data_hourly fd2) ''summary'' (PStr [])\<rparr>, fd2))
      else if sensor_type s1 = ''daily_summary'' then
        (case update_daily fd1 now of
           (Raised e, fd2) \<Rightarrow> (Raised e, s1, fd2)
         | (Returned, fd2) \<Rightarrow>
             (Returned,
              s1\<lparr>priv_state := getattr (data_daily fd2) ''summary'' (PStr [])\<rparr>, fd2))
      else
        (case update_currently fd1 now of
           (Raised e, fd2) \<Rightarrow> (Raised e, s1, fd2)
         | (Returned, fd2) \<Rightarrow>
             (case get_currently_state s1 (data_currently fd2) of
                Inl e \<Rightarrow> (Raised e, s1, fd2)
              | Inr v \<Rightarrow> (Returned, s1\<lparr>priv_state := v\<rparr>, fd2))))))"

definition ForeCastSensor_init ::
  "ForeCastData \<Rightarrow> string \<Rightarrow> string \<Rightarrow> int \<Rightarrow> fetch_exc + forecast \<Rightarrow>
   outcome \<times> ForeCastSensor \<times> ForeCastData" where
  "ForeCastSensor_init forecast_data stype nm now resp =
     (case map_of SENSOR_TYPES stype of
        None \<Rightarrow>
          (Raised (KeyError stype),
           \<lparr>client_name = nm, priv_name = None, sensor_type = stype, priv_state = PNone,
            priv_unit_of_measurement = None\<rparr>,
           forecast_data)
      | Some row \<Rightarrow>
          sensor_update
            \<lparr>client_name = nm, priv_name = (case row of [] \<Rightarrow> None | n # _ \<Rightarrow> n),
             sensor_type = stype, priv_state = PNone, priv_unit_of_measurement = None\<rparr>
            forecast_data now resp)"

text \<open>The age of the sub-view a sensor of the given type consumes is read off here.\<close>

definition consumed_at :: "string \<Rightarrow> ForeCastData \<Rightarrow> int" where
  "consumed_at stype fd =
     (if stype = ''minutely_summary'' then minutely_at fd
      else if stype = ''hourly_summary'' then hourly_at fd
      else if stype = ''daily_summary'' then daily_at fd
      else currently_at fd)"

subsection \<open>Platform setup\<close>

text \<open>
  The host-wide configuration and the platform's configuration dictionary. An entry of
  the dictionary that is not there is \<open>None\<close>.
\<close>

record hass_config =
  hc_latitude :: "rat option"
  hc_longitude :: "rat option"
  temperature_unit :: string

record platform_config =
  conf_api_key :: "string option"
  conf_units :: "string option"
  conf_name :: "string option"
  monitored_conditions :: "string list option"

text \<open>
  Modelled from the spec: \<^verbatim>\<open>validate_config\<close> of \<^verbatim>\<open>homeassistant.helpers\<close>,
  which is not among the sources. The spec says that setup fails when a required
  credential is missing from the configuration; the one required key is the API key.
\<close>

definition validate_config :: "platform_config \<Rightarrow> bool" where
  "validate_config config = (conf_api_key config \<noteq> None)"

text \<open>
  The loop over the monitored conditions. A condition that is not in the table is
  logged and skipped; a sensor's constructor that raises ends the loop.
\<close>

fun sensors_loop ::
  "string list \<Rightarrow> string \<Rightarrow> int \<Rightarrow> fetch_exc + forecast \<Rightarrow> ForeCastSensor list \<Rightarrow>
   ForeCastData \<Rightarrow> outcome \<times> ForeCastSensor list \<times> ForeCastData" where
  "sensors_loop [] nm now resp sensors fd = (Returned, sensors, fd)"
| "sensors_loop (variable # rest) nm now resp sensors fd =
     (if map_of SENSOR_TYPES variable \<noteq> None then
        (case ForeCastSensor_init fd variable nm now resp of
           (Raised e, s, fd') \<Rightarrow> (Raised e, sensors, fd')
         | (Returned, s, fd') \<Rightarrow> sensors_loop rest nm now resp (sensors @ [s]) fd')
      else sensors_loop rest nm now resp sensors fd)"

text \<open>
  What a call of \<^verbatim>\<open>setup_platform\<close> does: what it returns (or raises), the list it
  passed to \<^verbatim>\<open>add_devices\<close> if it called it, the sensors it constructed, and the
  cache it built.
\<close>

datatype setup_return = ReturnFalse | ReturnNone | Propagate exc

record setup_result =
  returned :: setup_return
  added_devices :: "ForeCastSensor list option"
  created :: "ForeCastSensor list"
  cache :: "ForeCastData option"

definition setup_failed :: setup_result where
  "setup_failed =
     \<lparr>returned = ReturnFalse, added_devices = None, created = [], cache = None\<rparr>"

text \<open>
  \<^verbatim>\<open>TEMP_CELSIUS\<close> is a constant of the host that the sources do not give; it is a
  parameter. The clock is read once for the whole call.
\<close>

definition setup_platform ::
  "string \<Rightarrow> hass_config \<Rightarrow> platform_config \<Rightarrow> int \<Rightarrow> fetch_exc + forecast \<Rightarrow>
   setup_result" where
  "setup_platform TEMP_CELSIUS hass config now resp =
     (case (hc_latitude hass, hc_longitude hass) of
        (None, _) \<Rightarrow> setup_failed
      | (_, None) \<Rightarrow> setup_failed
      | (Some lat, Some lon) \<Rightarrow>
     (if \<not> validate_config config then setup_failed
      else
     (let unts =
            (case conf_units config of
               Some u \<Rightarrow> u
             | None \<Rightarrow> if temperature_unit hass = TEMP_CELSIUS then ''si'' else ''us'')
      in
     (case ForeCastData_init (conf_api_key config) lat lon unts now resp of
        (Raised (ValueError error), _) \<Rightarrow> setup_failed
      | (Raised e, _) \<Rightarrow> setup_failed\<lparr>returned := Propagate e\<rparr>
      | (Returned, fd) \<Rightarrow>
     (case update_currently fd now of
        (Raised (ValueError error), _) \<Rightarrow> setup_failed
      | (Raised e, _) \<Rightarrow> setup_failed\<lparr>returned := Propagate e\<rparr>
      | (Returned, fd1) \<Rightarrow>
     (let nm = (case conf_name config of None \<Rightarrow> DEFAULT_NAME | Some n \<Rightarrow> n)
      in
     (case monitored_conditions config of
        None \<Rightarrow>
          \<lparr>returned = Propagate (KeyError ''monitored_conditions''), added_devices = None,
           created = [], cache = Some fd1\<rparr>
      | Some conditions \<Rightarrow>
     (case sensors_loop conditions nm now resp [] fd1 of
        (Raised e, sensors, fd2) \<Rightarrow>
          \<lparr>returned = Propagate e, added_devices = None, created = sensors,
           cache = Some fd2\<rparr>
      | (Returned, sensors, fd2) \<Rightarrow>
          \<lparr>returned = ReturnNone, added_devices = Some sensors, created = sensors,
           cache = Some fd2\<rparr>))))))))"

subsection \<open>Polling\<close>

text \<open>
  After setup the host calls \<^verbatim>\<open>update\<close> on the sensors, one call after the
  other. A poll names the sensor, the clock reading and what the service would answer;
  the cache goes from one poll to the next whether the poll returned or raised.
\<close>

fun run_polls ::
  "ForeCastData \<Rightarrow> (ForeCastSensor \<times> int \<times> (fetch_exc + forecast)) list \<Rightarrow> ForeCastData" where
  "run_polls fd [] = fd"
| "run_polls fd ((s, now, resp) # ps) =
     run_polls (snd (snd (sensor_update s fd now resp))) ps"

subsection \<open>Freshness of the cache\<close>

text \<open>
  What the throttle keeps true of the cache. The payload was fetched no earlier than the
  last successful run of \<open>update\<close>; a sub-view was taken, at the last successful run
  of its own operation, from a payload that was then less than one interval old.
\<close>

definition view_inv :: "int option \<Rightarrow> int \<Rightarrow> bool" where
  "view_inv prev taken_from =
     (case prev of None \<Rightarrow> True | Some t \<Rightarrow> t - taken_from < MIN_TIME_BETWEEN_UPDATES)"

definition cache_inv :: "ForeCastData \<Rightarrow> bool" where
  "cache_inv fd =
     ((case last_update fd of None \<Rightarrow> False | Some u \<Rightarrow> data fd \<noteq> None \<and> u \<le> data_at fd) \<and>
      view_inv (last_update_currently fd) (currently_at fd) \<and>
      view_inv (last_update_minutely fd) (minutely_at fd) \<and>
      view_inv (last_update_hourly fd) (hourly_at fd) \<and>
      view_inv (last_update_daily fd) (daily_at fd))"

text \<open>
  The freshness of a read at time \<open>now\<close> by a sensor of the given type: the payload
  in the cache and the sub-view the sensor consumes are at most one interval old.
\<close>

definition read_fresh :: "string \<Rightarrow> int \<Rightarrow> ForeCastData \<Rightarrow> bool" where
  "read_fresh stype now fd =
     (now - data_at fd \<le> MIN_TIME_BETWEEN_UPDATES \<and>
      now - consumed_at stype fd \<le> MIN_TIME_BETWEEN_UPDATES)"

subsection \<open>Example data\<close>

text \<open>
  A forecast in which every summary is the given text and the temperature is the
  double that the literal 21.449 denotes, a host configuration with a location, and a
  platform configuration that monitors the temperature and the minutely summary.
\<close>

definition example_forecast :: "string \<Rightarrow> string \<Rightarrow> forecast" where
  "example_forecast flag txt =
     \<lparr>flags_units = Some flag,
      currently =
        [(''summary'', PStr txt),
         (''temperature'', PFloat (Finite (to_double (21449 / 1000))))],
      minutely = [(''summary'', PStr txt)],
      hourly = [(''summary'', PStr txt)],
      daily = [(''summary'', PStr txt)]\<rparr>"

definition example_hass :: hass_config where
  "example_hass = \<lparr>hc_latitude = Some 52, hc_longitude = Some 13, temperature_unit = ''C''\<rparr>"

definition example_config :: platform_config where
  "example_config =
     \<lparr>conf_api_key = Some ''key'', conf_units = None, conf_name = None,
      monitored_conditions = Some [''temperature'', ''minutely_summary'']\<rparr>"

definition example_sensor :: "string \<Rightarrow> ForeCastSensor" where
  "example_sensor stype =
     \<lparr>client_name = DEFAULT_NAME, priv_name = None, sensor_type = stype,
      priv_state = PNone, priv_unit_of_measurement = None\<rparr>"

text \<open>
  The cache that the example setup at time 0 leaves behind, when the service answers
  with the forecast whose summaries read \<open>first\<close>; then two polls: the temperature
  sensor at 121, the minutely summary at 131.
\<close>

definition example_cache :: ForeCastData where
  "example_cache =
     \<lparr>priv_api_key = Some ''key'', latitude = 52, longitude = 13, units = ''si'',
      data = Some (example_forecast ''si'' ''first''),
      unit_system = Some ''si'',
      data_currently = Some (currently (example_forecast ''si'' ''first'')),
      data_minutely = Some (minutely (example_forecast ''si'' ''first'')),
      data_hourly = None, data_daily = None,
      last_update = Some 0, last_update_currently = Some 0, last_update_minutely = Some 0,
      last_update_hourly = None, last_update_daily = None,
      fetches = 1, data_at = 0, currently_at = 0, minutely_at = 0, hourly_at = 0,
      daily_at = 0\<rparr>"

definition example_polls :: "(ForeCastSensor \<times> int \<times> (fetch_exc + forecast)) list" where
  "example_polls =
     [(example_sensor ''temperature'', 121, Inr (example_forecast ''si'' ''second'')),
      (example_sensor ''minutely_summary'', 131, Inr (example_forecast ''si'' ''unused''))]"

section \<open>Properties of the garage door\<close>

lemma is_closed_loop_find:
  "is_closed_loop vs =
     map_option zdata (List.find (\<lambda>v. command_class v = 37 \<and> index v = 0) vs)"
  by (induction vs) auto

lemma find_map_snd_filter:
  "List.find P (map snd (filter (\<lambda>(k, v). Q v) kvs)) =
     List.find (\<lambda>v. Q v \<and> P v) (map snd kvs)"
  by (induction kvs) auto

lemma is_closed_find:
  "is_closed self =
     map_option zdata
       (List.find (\<lambda>v. command_class v = 37 \<and> index v = 0)
          (map snd (values_of (priv_node self))))"
  unfolding is_closed_def get_values_def is_closed_loop_find find_map_snd_filter
    COMMAND_CLASS_SWITCH_BINARY_def
  by (rule arg_cong[where f="map_option zdata"]) (rule arg_cong2[where f=List.find], auto)

text \<open>
  Claim C6. Whatever values the bound node holds: when none of them has command class
  0x25 and index 0, \<open>is_closed\<close> returns nothing; when one of them has, and the values
  with that class and index agree on their payload, \<open>is_closed\<close> returns that payload.
\<close>

theorem is_closed_binary_switch_index0:
  "((\<forall>v \<in> snd ` set (values_of (priv_node self)).
       \<not> (command_class v = 0x25 \<and> index v = 0))
      \<longrightarrow> is_closed self = None) \<and>
   (\<forall>v \<in> snd ` set (values_of (priv_node self)).
      command_class v = 0x25 \<and> index v = 0 \<and>
      (\<forall>w \<in> snd ` set (values_of (priv_node self)).
         command_class w = 0x25 \<and> index w = 0 \<longrightarrow> zdata w = zdata v)
      \<longrightarrow> is_closed self = Some (zdata v))"
proof (intro conjI impI ballI)
  assume "\<forall>v \<in> snd ` set (values_of (priv_node self)).
            \<not> (command_class v = 0x25 \<and> index v = 0)"
  then have "List.find (\<lambda>v. command_class v = 37 \<and> index v = 0)
               (map snd (values_of (priv_node self))) = None"
    by (auto simp: find_None_iff)
  then show "is_closed self = None"
    by (simp add: is_closed_find)
next
  fix v
  let ?P = "\<lambda>v. command_class v = 37 \<and> index v = 0"
  let ?vs = "map snd (values_of (priv_node self))"
  assume v: "v \<in> snd ` set (values_of (priv_node self))"
    and h: "command_class v = 0x25 \<and> index v = 0 \<and>
      (\<forall>w \<in> snd ` set (values_of (priv_node self)).
         command_class w = 0x25 \<and> index w = 0 \<longrightarrow> zdata w = zdata v)"
  from v h have "\<exists>x \<in> set ?vs. ?P x"
    by auto
  then obtain w where w: "List.find ?P ?vs = Some w"
    by (cases "List.find ?P ?vs") (auto simp: find_None_iff)
  then have "w \<in> set ?vs" "?P w"
    by (auto simp: find_Some_iff)
  with h have "zdata w = zdata v"
    by auto
  with w show "is_closed self = Some (zdata v)"
    by (simp add: is_closed_find)
qed

theorem is_closed_binary_switch_index0_witness:
  "is_closed
     \<lparr>priv_value = \<lparr>value_id = 7, node = 3, command_class = 0x25, index = 0, zdata = True\<rparr>,
      priv_node = \<lparr>node_id = 3, values_of =
        [(5, \<lparr>value_id = 5, node = 3, command_class = 0x25, index = 1, zdata = False\<rparr>),
         (6, \<lparr>value_id = 6, node = 3, command_class = 0x31, index = 0, zdata = False\<rparr>),
         (7, \<lparr>value_id = 7, node = 3, command_class = 0x25, index = 0, zdata = True\<rparr>)]\<rparr>,
      refresh_requests = 0\<rparr> = Some True \<and>
   is_closed
     \<lparr>priv_value = \<lparr>value_id = 6, node = 3, command_class = 0x31, index = 0, zdata = True\<rparr>,
      priv_node = \<lparr>node_id = 3, values_of =
        [(5, \<lparr>value_id = 5, node = 3, command_class = 0x25, index = 1, zdata = False\<rparr>),
         (6, \<lparr>value_id = 6, node = 3, command_class = 0x31, index = 0, zdata = True\<rparr>)]\<rparr>,
      refresh_requests = 0\<rparr> = None"
proof -
  let ?v5 = "\<lparr>value_id = 5, node = 3, command_class = 0x25, index = 1, zdata = False\<rparr>"
  let ?v6 = "\<lparr>value_id = 6, node = 3, command_class = 0x31, index = 0, zdata = False\<rparr>"
  let ?v6' = "\<lparr>value_id = 6, node = 3, command_class = 0x31, index = 0, zdata = True\<rparr>"
  let ?v7 = "\<lparr>value_id = 7, node = 3, command_class = 0x25, index = 0, zdata = True\<rparr>"
  let ?d1 = "\<lparr>priv_value = ?v7,
      priv_node = \<lparr>node_id = 3, values_of = [(5, ?v5), (6, ?v6), (7, ?v7)]\<rparr>,
      refresh_requests = 0\<rparr>"
  let ?d0 = "\<lparr>priv_value = ?v6',
      priv_node = \<lparr>node_id = 3, values_of = [(5, ?v5), (6, ?v6')]\<rparr>,
      refresh_requests = 0\<rparr>"
  have mem: "?v7 \<in> snd ` set (values_of (priv_node ?d1))"
    by simp
  have hyp: "command_class ?v7 = 0x25 \<and> index ?v7 = 0 \<and>
      (\<forall>w \<in> snd ` set (values_of (priv_node ?d1)).
         command_class w = 0x25 \<and> index w = 0 \<longrightarrow> zdata w = zdata ?v7)"
    by simp
  have none: "\<forall>v \<in> snd ` set (values_of (priv_node ?d0)).
       \<not> (command_class v = 0x25 \<and> index v = 0)"
    by simp
  from is_closed_binary_switch_index0[of ?d1] mem hyp
  have "is_closed ?d1 = Some (zdata ?v7)"
    by blast
  moreover from is_closed_binary_switch_index0[of ?d0] none
  have "is_closed ?d0 = None"
    by blast
  ultimately show ?thesis
    by simp
qed

text \<open>
  Claim C7. The handler requests one refresh from the host when the node of the changed
  value is the node of the bound value, and does nothing otherwise; so a refresh is
  requested exactly when the two nodes are equal, and two events of the same node have
  the same effect whatever their value ids are.
\<close>

theorem value_changed_refresh_iff_same_node:
  "(node (priv_value self) = node v \<longrightarrow>
      value_changed self v = self\<lparr>refresh_requests := refresh_requests self + 1\<rparr>) \<and>
   (node (priv_value self) \<noteq> node v \<longrightarrow> value_changed self v = self) \<and>
   (refresh_requests (value_changed self v) \<noteq> refresh_requests self
      \<longleftrightarrow> node (priv_value self) = node v) \<and>
   (node v = node v' \<longrightarrow> value_changed self v = value_changed self v')"
  by (simp add: value_changed_def)

theorem value_changed_refresh_iff_same_node_witness:
  "refresh_requests
     (value_changed
        \<lparr>priv_value = \<lparr>value_id = 7, node = 3, command_class = 0x25, index = 0, zdata = True\<rparr>,
         priv_node = \<lparr>node_id = 3, values_of = []\<rparr>, refresh_requests = 4\<rparr>
        \<lparr>value_id = 9, node = 3, command_class = 0x31, index = 2, zdata = False\<rparr>) = 5 \<and>
   refresh_requests
     (value_changed
        \<lparr>priv_value = \<lparr>value_id = 7, node = 3, command_class = 0x25, index = 0, zdata = True\<rparr>,
         priv_node = \<lparr>node_id = 3, values_of = []\<rparr>, refresh_requests = 4\<rparr>
        \<lparr>value_id = 7, node = 8, command_class = 0x25, index = 0, zdata = False\<rparr>) = 4"
proof -
  let ?self = "\<lparr>priv_value =
         \<lparr>value_id = 7, node = 3, command_class = 0x25, index = 0, zdata = True\<rparr>,
       priv_node = \<lparr>node_id = 3, values_of = []\<rparr>, refresh_requests = 4\<rparr>"
  let ?same = "\<lparr>value_id = 9, node = 3, command_class = 0x31, index = 2, zdata = False\<rparr>"
  let ?other = "\<lparr>value_id = 7, node = 8, command_class = 0x25, index = 0, zdata = False\<rparr>"
  have eq: "node (priv_value ?self) = node ?same"
    by simp
  have ne: "node (priv_value ?self) \<noteq> node ?other"
    by simp
  from value_changed_refresh_iff_same_node[of ?self ?same ?same] eq
  have "value_changed ?self ?same = ?self\<lparr>refresh_requests := refresh_requests ?self + 1\<rparr>"
    by blast
  moreover from value_changed_refresh_iff_same_node[of ?self ?other ?other] ne
  have "value_changed ?self ?other = ?self"
    by blast
  ultimately show ?thesis
    by simp
qed

section \<open>Properties of the name conversion\<close>

lemma split_no_sep: "sep \<notin> set s \<Longrightarrow> split_chr sep s = [s]"
  by (induction s) auto

lemma split_append:
  "sep \<notin> set w \<Longrightarrow> split_chr sep (w @ sep # s) = w # split_chr sep s"
  by (induction w) auto

lemma split_snake:
  "ws \<noteq> [] \<Longrightarrow> \<forall>w\<in>set ws. CHR ''_'' \<notin> set w \<Longrightarrow> split_chr CHR ''_'' (snake ws) = ws"
  by (induction ws rule: snake.induct) (auto simp: split_no_sep split_append)

lemma title_from_lower:
  "\<forall>c\<in>set w. is_lower c \<Longrightarrow> title_from True w = w"
  by (induction w) auto

lemma title_lower: "\<forall>c\<in>set w. is_lower c \<Longrightarrow> title w = capitalize w"
  by (cases w) (auto simp: title_def title_from_lower)

lemma lower_not_underscore: "is_lower c \<Longrightarrow> c \<noteq> CHR ''_''"
  by (auto simp: is_lower_def)

text \<open>
  Claim C5. \<open>convert_to_camel\<close> keeps the first underscore-separated component and
  appends the title-cased later ones: the two keys of the spec give the two camel-case
  names, a key without an underscore (as \<open>summary\<close> and \<open>icon\<close>) is mapped to itself,
  and a key made of lower-case words joined by underscores is mapped to its first word
  followed by the capitalised other words.
\<close>

theorem convert_to_camel_snake_case:
  "convert_to_camel ''nearest_storm_distance'' = ''nearestStormDistance'' \<and>
   convert_to_camel ''wind_speed'' = ''windSpeed'' \<and>
   convert_to_camel ''summary'' = ''summary'' \<and>
   convert_to_camel ''icon'' = ''icon'' \<and>
   (CHR ''_'' \<notin> set key \<longrightarrow> convert_to_camel key = key) \<and>
   ((\<forall>w \<in> set (w0 # ws). \<forall>c \<in> set w. is_lower c) \<longrightarrow>
      convert_to_camel (snake (w0 # ws)) = w0 @ concat (map capitalize ws))"
proof (intro conjI impI)
  show "convert_to_camel ''nearest_storm_distance'' = ''nearestStormDistance''"
    by code_simp
  show "convert_to_camel ''wind_speed'' = ''windSpeed''"
    by code_simp
  show "convert_to_camel ''summary'' = ''summary''"
    by code_simp
  show "convert_to_camel ''icon'' = ''icon''"
    by code_simp
next
  assume "CHR ''_'' \<notin> set key"
  then show "convert_to_camel key = key"
    by (simp add: convert_to_camel_def split_no_sep)
next
  assume low: "\<forall>w \<in> set (w0 # ws). \<forall>c \<in> set w. is_lower c"
  then have "\<forall>w \<in> set (w0 # ws). CHR ''_'' \<notin> set w"
    using lower_not_underscore by blast
  then have sp: "split_chr CHR ''_'' (snake (w0 # ws)) = w0 # ws"
    using split_snake[of "w0 # ws"] by simp
  have "\<forall>w \<in> set ws. title w = capitalize w"
    using low by (simp add: title_lower)
  then have "map title ws = map capitalize ws"
    by (simp only: map_eq_conv)
  then have eq: "concat (map title ws) = concat (map capitalize ws)"
    by (simp only:)
  show "convert_to_camel (snake (w0 # ws)) = w0 @ concat (map capitalize ws)"
    unfolding convert_to_camel_def sp by (simp add: eq)
qed

theorem convert_to_camel_snake_case_witness:
  "CHR ''_'' \<notin> set ''icon'' \<and>
   convert_to_camel ''icon'' = ''icon'' \<and>
   convert_to_camel (snake [''wind'', ''speed'']) =
     ''wind'' @ concat (map capitalize [''speed''])"
proof -
  have low: "\<forall>w \<in> set [''wind'', ''speed'']. \<forall>c \<in> set w. is_lower c"
    by code_simp
  have nous: "CHR ''_'' \<notin> set ''icon''"
    by simp
  from convert_to_camel_snake_case[of "''icon''" "''wind''" "[''speed'']"] low nous
  show ?thesis
    by blast
qed

section \<open>Properties of the sensor's units and values\<close>

lemma rows_length: "map_of SENSOR_TYPES k = Some row \<Longrightarrow> length row = 6"
proof -
  assume "map_of SENSOR_TYPES k = Some row"
  then have "(k, row) \<in> set SENSOR_TYPES"
    by (rule map_of_SomeD)
  moreover have "\<forall>(k, row) \<in> set SENSOR_TYPES. length row = 6"
    by (simp add: SENSOR_TYPES_def)
  ultimately show ?thesis
    by blast
qed

lemma unit_index_cases:
  "unit_index us =
     (if us = Some ''si'' then 1 else if us = Some ''us'' then 2
      else if us = Some ''ca'' then 3 else if us = Some ''uk'' then 4
      else if us = Some ''uk2'' then 5 else 1)"
  by (auto simp: unit_index_def split: option.splits)

text \<open>
  Claim C4. For a sensor whose field key is in the table, with \<open>row\<close> the key's row
  (six entries: the name and five units), \<open>update_unit_of_measurement\<close> stores the
  entry at index 1 when the cache reports \<open>si\<close>, 2 for \<open>us\<close>, 3 for \<open>ca\<close>, 4 for
  \<open>uk\<close>, 5 for \<open>uk2\<close>, and the entry at index 1 for any other report, an absent one
  included.
\<close>

theorem update_unit_of_measurement_column:
  "map_of SENSOR_TYPES (sensor_type self) = Some row \<longrightarrow>
     length row = 6 \<and>
     (unit_system fd = Some ''si'' \<longrightarrow>
        update_unit_of_measurement self fd =
          (Returned, self\<lparr>priv_unit_of_measurement := row ! 1\<rparr>)) \<and>
     (unit_system fd = Some ''us'' \<longrightarrow>
        update_unit_of_measurement self fd =
          (Returned, self\<lparr>priv_unit_of_measurement := row ! 2\<rparr>)) \<and>
     (unit_system fd = Some ''ca'' \<longrightarrow>
        update_unit_of_measurement self fd =
          (Returned, self\<lparr>priv_unit_of_measurement := row ! 3\<rparr>)) \<and>
     (unit_system fd = Some ''uk'' \<longrightarrow>
        update_unit_of_measurement self fd =
          (Returned, self\<lparr>priv_unit_of_measurement := row ! 4\<rparr>)) \<and>
     (unit_system fd = Some ''uk2'' \<longrightarrow>
        update_unit_of_measurement self fd =
          (Returned, self\<lparr>priv_unit_of_measurement := row ! 5\<rparr>)) \<and>
     (unit_system fd \<notin> {Some ''si'', Some ''us'', Some ''ca'', Some ''uk'', Some ''uk2''} \<longrightarrow>
        update_unit_of_measurement self fd =
          (Returned, self\<lparr>priv_unit_of_measurement := row ! 1\<rparr>))"
proof
  assume r: "map_of SENSOR_TYPES (sensor_type self) = Some row"
  then have len: "length row = 6"
    by (rule rows_length)
  show "length row = 6 \<and>
     (unit_system fd = Some ''si'' \<longrightarrow>
        update_unit_of_measurement self fd =
          (Returned, self\<lparr>priv_unit_of_measurement := row ! 1\<rparr>)) \<and>
     (unit_system fd = Some ''us'' \<longrightarrow>
        update_unit_of_measurement self fd =
          (Returned, self\<lparr>priv_unit_of_measurement := row ! 2\<rparr>)) \<and>
     (unit_system fd = Some ''ca'' \<longrightarrow>
        update_unit_of_measurement self fd =
          (Returned, self\<lparr>priv_unit_of_measurement := row ! 3\<rparr>)) \<and>
     (unit_system fd = Some ''uk'' \<longrightarrow>
        update_unit_of_measurement self fd =
          (Returned, self\<lparr>priv_unit_of_measurement := row ! 4\<rparr>)) \<and>
     (unit_system fd = Some ''uk2'' \<longrightarrow>
        update_unit_of_measurement self fd =
          (Returned, self\<lparr>priv_unit_of_measurement := row ! 5\<rparr>)) \<and>
     (unit_system fd \<notin> {Some ''si'', Some ''us'', Some ''ca'', Some ''uk'', Some ''uk2''} \<longrightarrow>
        update_unit_of_measurement self fd =
          (Returned, self\<lparr>priv_unit_of_measurement := row ! 1\<rparr>))"
    using r len by (simp add: update_unit_of_measurement_def unit_index_cases)
qed

text \<open>
  An instance: a wind-speed sensor, against a cache that reports \<open>ca\<close> and against one
  that reports something the dictionary does not know.
\<close>

theorem update_unit_of_measurement_column_witness:
  "map_of SENSOR_TYPES ''wind_speed'' =
     Some [Some ''Wind Speed'', Some ''m/s'', Some ''mph'', Some ''km/h'', Some ''mph'',
           Some ''mph''] \<and>
   priv_unit_of_measurement
     (snd (update_unit_of_measurement
        \<lparr>client_name = ''Forecast.io'', priv_name = Some ''Wind Speed'',
         sensor_type = ''wind_speed'', priv_state = PNone, priv_unit_of_measurement = None\<rparr>
        (snd (ForeCastData_init (Some ''key'') 52 13 ''si'' 0
           (Inr \<lparr>flags_units = Some ''ca'', currently = [], minutely = [], hourly = [],
                 daily = []\<rparr>))))) = Some ''km/h'' \<and>
   priv_unit_of_measurement
     (snd (update_unit_of_measurement
        \<lparr>client_name = ''Forecast.io'', priv_name = Some ''Wind Speed'',
         sensor_type = ''wind_speed'', priv_state = PNone, priv_unit_of_measurement = None\<rparr>
        (snd (ForeCastData_init (Some ''key'') 52 13 ''si'' 0
           (Inr \<lparr>flags_units = Some ''auto'', currently = [], minutely = [], hourly = [],
                 daily = []\<rparr>))))) = Some ''m/s''"
proof -
  let ?s = "\<lparr>client_name = ''Forecast.io'', priv_name = Some ''Wind Speed'',
         sensor_type = ''wind_speed'', priv_state = PNone, priv_unit_of_measurement = None\<rparr>"
  let ?row = "[Some ''Wind Speed'', Some ''m/s'', Some ''mph'', Some ''km/h'', Some ''mph'',
           Some ''mph'']"
  let ?ca = "snd (ForeCastData_init (Some ''key'') 52 13 ''si'' 0
           (Inr \<lparr>flags_units = Some ''ca'', currently = [], minutely = [], hourly = [],
                 daily = []\<rparr>))"
  let ?auto = "snd (ForeCastData_init (Some ''key'') 52 13 ''si'' 0
           (Inr \<lparr>flags_units = Some ''auto'', currently = [], minutely = [], hourly = [],
                 daily = []\<rparr>))"
  have row: "map_of SENSOR_TYPES (sensor_type ?s) = Some ?row"
    by (simp add: SENSOR_TYPES_def)
  have ca: "unit_system ?ca = Some ''ca''"
    by (simp add: ForeCastData_init_def update_def Throttle_def throttled_def
        update_body_def)
  have auto: "unit_system ?auto \<notin>
      {Some ''si'', Some ''us'', Some ''ca'', Some ''uk'', Some ''uk2''}"
    by (simp add: ForeCastData_init_def update_def Throttle_def throttled_def
        update_body_def)
  from update_unit_of_measurement_column[of ?s ?row ?ca] row ca
  have "update_unit_of_measurement ?s ?ca =
          (Returned, ?s\<lparr>priv_unit_of_measurement := ?row ! 3\<rparr>)"
    by blast
  moreover from update_unit_of_measurement_column[of ?s ?row ?auto] row auto
  have "update_unit_of_measurement ?s ?auto =
          (Returned, ?s\<lparr>priv_unit_of_measurement := ?row ! 1\<rparr>)"
    by blast
  ultimately show ?thesis
    using row by simp
qed

lemma round_half_even_near: "\<bar>of_int (round_half_even y) - y\<bar> \<le> 1 / 2"
proof -
  have "of_int \<lfloor>y\<rfloor> \<le> y" "y < of_int \<lfloor>y\<rfloor> + 1"
    by linarith+
  then show ?thesis
    by (auto simp: round_half_even_def Let_def abs_le_iff)
qed

lemma bitlen_powi_bounds:
  assumes "0 < (a::int)"
  shows "(2::rat) powi (bitlen a - 1) \<le> of_int a" and "of_int a < (2::rat) powi bitlen a"
proof -
  from assms have pos: "1 \<le> bitlen a"
    by (auto simp: bitlen_alt_def)
  from bitlen_bounds[OF assms]
  have lo: "2 ^ nat (bitlen a - 1) \<le> a" and hi: "a < 2 ^ nat (bitlen a)"
    by simp_all
  from lo have "(of_int (2 ^ nat (bitlen a - 1)) :: rat) \<le> of_int a"
    by (simp only: of_int_le_iff)
  with pos show "(2::rat) powi (bitlen a - 1) \<le> of_int a"
    by (simp add: power_int_def)
  from hi have "(of_int a :: rat) < of_int (2 ^ nat (bitlen a))"
    by (simp only: of_int_less_iff)
  with pos show "of_int a < (2::rat) powi bitlen a"
    by (simp add: power_int_def)
qed

lemma binade_le:
  assumes "y \<noteq> 0"
  shows "2 powi binade y \<le> \<bar>y\<bar>"
proof -
  obtain a b where q: "quotient_of \<bar>y\<bar> = (a, b)"
    by (cases "quotient_of \<bar>y\<bar>")
  then have b: "0 < b" and y: "\<bar>y\<bar> = of_int a / of_int b"
    by (simp_all add: quotient_of_denom_pos quotient_of_div)
  from assms have "0 < \<bar>y\<bar>"
    by simp
  with y b have a: "0 < a"
    by (simp add: zero_less_divide_iff)
  let ?d = "bitlen a - bitlen b"
  show ?thesis
  proof (cases "2 powi ?d \<le> \<bar>y\<bar>")
    case True
    with q show ?thesis
      by (simp add: binade_def)
  next
    case False
    with q have e: "binade y = ?d - 1"
      by (simp add: binade_def)
    have lo: "(2::rat) powi (bitlen a - 1) \<le> of_int a"
      using bitlen_powi_bounds(1)[OF a] .
    have hi: "of_int b < (2::rat) powi bitlen b"
      using bitlen_powi_bounds(2)[OF b] .
    have "(2::rat) powi (?d - 1) = 2 powi (bitlen a - 1) / 2 powi bitlen b"
      by (simp add: power_int_diff)
    also have "\<dots> \<le> of_int a / 2 powi bitlen b"
      using lo by (simp add: divide_right_mono)
    also have "\<dots> \<le> of_int a / of_int b"
      using hi a b by (simp add: frac_le)
    finally show ?thesis
      using e y by simp
  qed
qed

lemma to_double_near: "\<bar>to_double y - y\<bar> \<le> \<bar>y\<bar> + 1"
proof (cases "y = 0")
  case True
  then show ?thesis
    by (simp add: to_double_def)
next
  case False
  let ?q = "max (binade y - 52) (- 1074)"
  let ?p = "(2::rat) powi ?q"
  have p: "0 < ?p"
    by simp
  have "to_double y - y = (of_int (round_half_even (y / ?p)) - y / ?p) * ?p"
    using False p by (simp add: to_double_def Let_def field_simps)
  then have "\<bar>to_double y - y\<bar> = \<bar>of_int (round_half_even (y / ?p)) - y / ?p\<bar> * ?p"
    using p by (simp add: abs_mult)
  also have "\<dots> \<le> 1 / 2 * ?p"
    using round_half_even_near[of "y / ?p"] p by (simp add: mult_right_mono)
  also have "\<dots> \<le> \<bar>y\<bar> + 1"
  proof (cases "binade y - 52 \<le> - 1074")
    case True
    then have "?q = - 1074"
      by simp
    moreover have "(2::rat) powi (- 1074) \<le> 2 powi 0"
      by (rule power_int_increasing) simp_all
    ultimately have "?p \<le> 1"
      by simp
    then show ?thesis
      by linarith
  next
    case False
    then have "?q = binade y - 52"
      by simp
    moreover have "(2::rat) powi (binade y - 52) \<le> 2 powi binade y"
      by (rule power_int_increasing) simp_all
    ultimately have "?p \<le> \<bar>y\<bar>"
      using binade_le[OF \<open>y \<noteq> 0\<close>] by simp
    then show ?thesis
      by linarith
  qed
  finally show ?thesis .
qed

lemma to_double_bound: "\<bar>to_double y\<bar> \<le> 2 * \<bar>y\<bar> + 1"
  using to_double_near[of y] by linarith

lemma float_round_one_digit:
  assumes "\<bar>x\<bar> \<le> 2 ^ 1010"
  shows "\<exists>v n. float_round (Finite x) 1 = Inr v \<and>
           float_value v = Some (to_double (of_int n / 10)) \<and>
           \<bar>of_int n / 10 - x\<bar> \<le> 1 / 20"
proof -
  let ?n = "round_half_even (x * 10)"
  let ?r = "to_double (of_int ?n / 10)"
  have "\<bar>of_int ?n - x * 10\<bar> \<le> 1 / 2"
    by (rule round_half_even_near)
  then have near: "\<bar>of_int ?n / 10 - x\<bar> \<le> 1 / 20"
    by (simp add: abs_le_iff field_simps)
  then have "\<bar>of_int ?n / 10\<bar> \<le> \<bar>x\<bar> + 1 / 20"
    by linarith
  with to_double_bound[of "of_int ?n / 10"] assms
  have "\<bar>?r\<bar> \<le> 2 * 2 ^ 1010 + 2"
    by linarith
  also have "\<dots> < (2::rat) ^ 1024"
    by simp
  finally have small: "\<not> 2 powi 1024 \<le> \<bar>?r\<bar>"
    by simp
  show ?thesis
  proof (cases "?r = 0 \<and> x < 0")
    case True
    with small have "float_round (Finite x) 1 = Inr NegZero"
      by (simp add: float_round_def Let_def)
    with True near show ?thesis
      by (auto simp: float_value_def)
  next
    case False
    with small have "float_round (Finite x) 1 = Inr (Finite ?r)"
      by (auto simp: float_round_def Let_def)
    with near show ?thesis
      by (auto simp: float_value_def)
  qed
qed

lemma float_mul_hundred:
  assumes "\<bar>x\<bar> \<le> 2 ^ 1000"
  shows "(float_mul (Finite x) 100 = Finite (to_double (x * 100)) \<or>
          float_mul (Finite x) 100 = NegZero \<and> to_double (x * 100) = 0) \<and>
         \<bar>to_double (x * 100)\<bar> \<le> 2 ^ 1010"
proof -
  let ?p = "to_double (x * 100)"
  from to_double_bound[of "x * 100"] assms
  have "\<bar>?p\<bar> \<le> 200 * 2 ^ 1000 + 1"
    by (simp add: abs_mult)
  also have "\<dots> \<le> (2::rat) ^ 1010"
    by simp
  finally have b: "\<bar>?p\<bar> \<le> 2 ^ 1010" .
  also have "\<dots> < (2::rat) ^ 1024"
    by simp
  finally have "\<not> 2 powi 1024 \<le> \<bar>?p\<bar>"
    by simp
  then show ?thesis
    using b by (auto simp: float_mul_def Let_def)
qed

lemma percent_of_float:
  assumes "\<bar>x\<bar> \<le> 2 ^ 1000"
  shows "\<exists>v n. (case py_mul (PFloat (Finite x)) 100 of
                   Inl e \<Rightarrow> Inl e | Inr w \<Rightarrow> py_round w 1) = Inr (PFloat v) \<and>
           float_value v = Some (to_double (of_int n / 10)) \<and>
           \<bar>of_int n / 10 - to_double (x * 100)\<bar> \<le> 1 / 20"
proof -
  let ?p = "to_double (x * 100)"
  from float_mul_hundred[OF assms]
  consider (fin) "float_mul (Finite x) 100 = Finite ?p" "\<bar>?p\<bar> \<le> 2 ^ 1010"
    | (zero) "float_mul (Finite x) 100 = NegZero" "?p = 0"
    by blast
  then show ?thesis
  proof cases
    case fin
    from float_round_one_digit[OF fin(2)] obtain v n where
      "float_round (Finite ?p) 1 = Inr v"
      "float_value v = Some (to_double (of_int n / 10))"
      "\<bar>of_int n / 10 - ?p\<bar> \<le> 1 / 20"
      by blast
    with fin(1) show ?thesis
      by (auto simp: py_mul_def py_round_def)
  next
    case zero
    have "float_value NegZero = Some (to_double (of_int 0 / 10))"
      by (simp add: float_value_def to_double_def)
    moreover have "\<bar>of_int 0 / 10 - ?p\<bar> \<le> 1 / 20"
      using zero(2) by simp
    moreover have "(case py_mul (PFloat (Finite x)) 100 of
                   Inl e \<Rightarrow> Inl e | Inr w \<Rightarrow> py_round w 1) = Inr (PFloat NegZero)"
      using zero(1) by (simp add: py_mul_def py_round_def float_round_def)
    ultimately show ?thesis
      by blast
  qed
qed

lemma rounded_of_float:
  assumes "\<bar>x\<bar> \<le> 2 ^ 1000"
  shows "\<exists>v n. py_round (PFloat (Finite x)) 1 = Inr (PFloat v) \<and>
           float_value v = Some (to_double (of_int n / 10)) \<and>
           \<bar>of_int n / 10 - x\<bar> \<le> 1 / 20"
proof -
  from assms have "\<bar>x\<bar> \<le> 2 ^ 1010"
    by (rule order_trans) simp
  from float_round_one_digit[OF this] show ?thesis
    by (auto simp: py_round_def)
qed

text \<open>
  Claim C3. Let \<open>raw\<close> be the value read off the data point (the int 0 when the
  attribute is absent). For the keys \<open>precip_probability\<close>, \<open>cloud_cover\<close> and
  \<open>humidity\<close>: a float \<open>x\<close> gives a float whose value is the double nearest to a
  one-decimal number \<open>n / 10\<close>, and \<open>n / 10\<close> is within 1/20 of the float product
  of \<open>x\<close> and 100; an int \<open>k\<close> gives the int \<open>100 * k\<close>. For the keys \<open>dew_point\<close>,
  \<open>temperature\<close>, \<open>apparent_temperature\<close>, \<open>pressure\<close> and \<open>ozone\<close>: a float \<open>x\<close>
  gives a float whose value is the double nearest to a one-decimal number within 1/20 of
  \<open>x\<close>; an int is returned as it is. For every other key \<open>raw\<close> is returned as it is.
  The humidity 0.567 gives 56.7 and the temperature 21.449 gives 21.4; on the doubles
  that 0.35 and 0.0015 denote, the temperature 0.35 gives 0.3 and the humidity 0.0015
  gives 0.1.
\<close>

theorem get_currently_state_rounding:
  "(sensor_type self \<in> {''precip_probability'', ''cloud_cover'', ''humidity''} \<and>
    getattr d (convert_to_camel (sensor_type self)) (PInt 0) = PFloat (Finite x) \<and>
    \<bar>x\<bar> \<le> 2 ^ 1000 \<longrightarrow>
      (\<exists>v n. get_currently_state self d = Inr (PFloat v) \<and>
             float_value v = Some (to_double (of_int n / 10)) \<and>
             \<bar>of_int n / 10 - to_double (x * 100)\<bar> \<le> 1 / 20)) \<and>
   (sensor_type self \<in> {''precip_probability'', ''cloud_cover'', ''humidity''} \<and>
    getattr d (convert_to_camel (sensor_type self)) (PInt 0) = PInt k \<longrightarrow>
      get_currently_state self d = Inr (PInt (k * 100))) \<and>
   (sensor_type self \<in> {''dew_point'', ''temperature'', ''apparent_temperature'',
                         ''pressure'', ''ozone''} \<and>
    getattr d (convert_to_camel (sensor_type self)) (PInt 0) = PFloat (Finite x) \<and>
    \<bar>x\<bar> \<le> 2 ^ 1000 \<longrightarrow>
      (\<exists>v n. get_currently_state self d = Inr (PFloat v) \<and>
             float_value v = Some (to_double (of_int n / 10)) \<and>
             \<bar>of_int n / 10 - x\<bar> \<le> 1 / 20)) \<and>
   (sensor_type self \<in> {''dew_point'', ''temperature'', ''apparent_temperature'',
                         ''pressure'', ''ozone''} \<and>
    getattr d (convert_to_camel (sensor_type self)) (PInt 0) = PInt k \<longrightarrow>
      get_currently_state self d = Inr (PInt k)) \<and>
   (sensor_type self \<notin> {''precip_probability'', ''cloud_cover'', ''humidity'',
                         ''dew_point'', ''temperature'', ''apparent_temperature'',
                         ''pressure'', ''ozone''} \<longrightarrow>
      get_currently_state self d =
        Inr (getattr d (convert_to_camel (sensor_type self)) (PInt 0))) \<and>
   get_currently_state (example_sensor ''humidity'')
     (Some [(''humidity'', PFloat (Finite (to_double (567 / 1000))))]) =
     Inr (PFloat (Finite (to_double (567 / 10)))) \<and>
   get_currently_state (example_sensor ''temperature'')
     (Some [(''temperature'', PFloat (Finite (to_double (21449 / 1000))))]) =
     Inr (PFloat (Finite (to_double (214 / 10)))) \<and>
   get_currently_state (example_sensor ''temperature'')
     (Some [(''temperature'', PFloat (Finite (to_double (35 / 100))))]) =
     Inr (PFloat (Finite (to_double (3 / 10)))) \<and>
   get_currently_state (example_sensor ''humidity'')
     (Some [(''humidity'', PFloat (Finite (to_double (15 / 10000))))]) =
     Inr (PFloat (Finite (to_double (1 / 10))))"
proof (intro conjI impI)
  assume h: "sensor_type self \<in> {''precip_probability'', ''cloud_cover'', ''humidity''} \<and>
    getattr d (convert_to_camel (sensor_type self)) (PInt 0) = PFloat (Finite x) \<and>
    \<bar>x\<bar> \<le> 2 ^ 1000"
  then have "get_currently_state self d =
      (case py_mul (PFloat (Finite x)) 100 of Inl e \<Rightarrow> Inl e | Inr w \<Rightarrow> py_round w 1)"
    by (auto simp: get_currently_state_def)
  with percent_of_float[of x] h
  show "\<exists>v n. get_currently_state self d = Inr (PFloat v) \<and>
             float_value v = Some (to_double (of_int n / 10)) \<and>
             \<bar>of_int n / 10 - to_double (x * 100)\<bar> \<le> 1 / 20"
    by simp
next
  assume "sensor_type self \<in> {''precip_probability'', ''cloud_cover'', ''humidity''} \<and>
    getattr d (convert_to_camel (sensor_type self)) (PInt 0) = PInt k"
  then show "get_currently_state self d = Inr (PInt (k * 100))"
    by (auto simp: get_currently_state_def py_mul_def py_round_def)
next
  assume h: "sensor_type self \<in> {''dew_point'', ''temperature'', ''apparent_temperature'',
                         ''pressure'', ''ozone''} \<and>
    getattr d (convert_to_camel (sensor_type self)) (PInt 0) = PFloat (Finite x) \<and>
    \<bar>x\<bar> \<le> 2 ^ 1000"
  then have "get_currently_state self d = py_round (PFloat (Finite x)) 1"
    by (auto simp: get_currently_state_def)
  with rounded_of_float[of x] h
  show "\<exists>v n. get_currently_state self d = Inr (PFloat v) \<and>
             float_value v = Some (to_double (of_int n / 10)) \<and>
             \<bar>of_int n / 10 - x\<bar> \<le> 1 / 20"
    by simp
next
  assume "sensor_type self \<in> {''dew_point'', ''temperature'', ''apparent_temperature'',
                         ''pressure'', ''ozone''} \<and>
    getattr d (convert_to_camel (sensor_type self)) (PInt 0) = PInt k"
  then show "get_currently_state self d = Inr (PInt k)"
    by (auto simp: get_currently_state_def py_round_def)
next
  assume "sensor_type self \<notin> {''precip_probability'', ''cloud_cover'', ''humidity'',
                         ''dew_point'', ''temperature'', ''apparent_temperature'',
                         ''pressure'', ''ozone''}"
  then show "get_currently_state self d =
        Inr (getattr d (convert_to_camel (sensor_type self)) (PInt 0))"
    by (simp add: get_currently_state_def)
next
  show "get_currently_state (example_sensor ''humidity'')
     (Some [(''humidity'', PFloat (Finite (to_double (567 / 1000))))]) =
     Inr (PFloat (Finite (to_double (567 / 10))))"
    by code_simp
next
  show "get_currently_state (example_sensor ''temperature'')
     (Some [(''temperature'', PFloat (Finite (to_double (21449 / 1000))))]) =
     Inr (PFloat (Finite (to_double (214 / 10))))"
    by code_simp
next
  show "get_currently_state (example_sensor ''temperature'')
     (Some [(''temperature'', PFloat (Finite (to_double (35 / 100))))]) =
     Inr (PFloat (Finite (to_double (3 / 10))))"
    by code_simp
next
  show "get_currently_state (example_sensor ''humidity'')
     (Some [(''humidity'', PFloat (Finite (to_double (15 / 10000))))]) =
     Inr (PFloat (Finite (to_double (1 / 10))))"
    by code_simp
qed

text \<open>
  An instance: a cloud cover of 0.25 and a pressure of 1013.25 (both are doubles), a
  humidity that arrives as the int 1, an ozone that arrives as the int 300, and a wind
  speed, which is returned as it is.
\<close>

theorem get_currently_state_rounding_witness:
  "(\<exists>v n. get_currently_state (example_sensor ''cloud_cover'')
             (Some [(''cloudCover'', PFloat (Finite (1 / 4)))]) = Inr (PFloat v) \<and>
          float_value v = Some (to_double (of_int n / 10)) \<and>
          \<bar>of_int n / 10 - to_double (1 / 4 * 100)\<bar> \<le> (1 / 20 :: rat)) \<and>
   (\<exists>v n. get_currently_state (example_sensor ''pressure'')
             (Some [(''pressure'', PFloat (Finite (101325 / 100)))]) = Inr (PFloat v) \<and>
          float_value v = Some (to_double (of_int n / 10)) \<and>
          \<bar>of_int n / 10 - 101325 / 100\<bar> \<le> (1 / 20 :: rat)) \<and>
   get_currently_state (example_sensor ''humidity'') (Some [(''humidity'', PInt 1)]) =
     Inr (PInt 100) \<and>
   get_currently_state (example_sensor ''ozone'') (Some [(''ozone'', PInt 300)]) =
     Inr (PInt 300) \<and>
   get_currently_state (example_sensor ''wind_speed'')
     (Some [(''windSpeed'', PFloat (Finite (to_double (3456 / 1000))))]) =
     Inr (PFloat (Finite (to_double (3456 / 1000))))"
proof -
  let ?c = "example_sensor ''cloud_cover''"
  let ?p = "example_sensor ''pressure''"
  let ?h = "example_sensor ''humidity''"
  let ?o = "example_sensor ''ozone''"
  let ?w = "example_sensor ''wind_speed''"
  let ?dc = "Some [(''cloudCover'', PFloat (Finite (1 / 4)))]"
  let ?dp = "Some [(''pressure'', PFloat (Finite (101325 / 100)))]"
  let ?dh = "Some [(''humidity'', PInt 1)]"
  let ?do = "Some [(''ozone'', PInt 300)]"
  let ?dw = "Some [(''windSpeed'', PFloat (Finite (to_double (3456 / 1000))))]"
  have camel_w: "convert_to_camel ''wind_speed'' = ''windSpeed''"
    by code_simp
  have camel_c: "convert_to_camel ''cloud_cover'' = ''cloudCover''"
    by code_simp
  have camel_p: "convert_to_camel ''pressure'' = ''pressure''"
    by code_simp
  have camel_h: "convert_to_camel ''humidity'' = ''humidity''"
    by code_simp
  have camel_o: "convert_to_camel ''ozone'' = ''ozone''"
    by code_simp
  have small: "\<bar>1 / 4 :: rat\<bar> \<le> 2 ^ 1000" "\<bar>101325 / 100 :: rat\<bar> \<le> 2 ^ 1000"
    by simp_all
  have percent: "sensor_type ?c \<in> {''precip_probability'', ''cloud_cover'', ''humidity''} \<and>
      getattr ?dc (convert_to_camel (sensor_type ?c)) (PInt 0) = PFloat (Finite (1 / 4)) \<and>
      \<bar>1 / 4 :: rat\<bar> \<le> 2 ^ 1000"
    using small by (simp add: example_sensor_def camel_c getattr_def)
  have rounded: "sensor_type ?p \<in> {''dew_point'', ''temperature'', ''apparent_temperature'',
                         ''pressure'', ''ozone''} \<and>
      getattr ?dp (convert_to_camel (sensor_type ?p)) (PInt 0) =
        PFloat (Finite (101325 / 100)) \<and>
      \<bar>101325 / 100 :: rat\<bar> \<le> 2 ^ 1000"
    using small by (simp add: example_sensor_def camel_p getattr_def)
  have percent_int: "sensor_type ?h \<in> {''precip_probability'', ''cloud_cover'', ''humidity''} \<and>
      getattr ?dh (convert_to_camel (sensor_type ?h)) (PInt 0) = PInt 1"
    by (simp add: example_sensor_def camel_h getattr_def)
  have rounded_int: "sensor_type ?o \<in> {''dew_point'', ''temperature'', ''apparent_temperature'',
                         ''pressure'', ''ozone''} \<and>
      getattr ?do (convert_to_camel (sensor_type ?o)) (PInt 0) = PInt 300"
    by (simp add: example_sensor_def camel_o getattr_def)
  have other: "sensor_type ?w \<notin> {''precip_probability'', ''cloud_cover'', ''humidity'',
                         ''dew_point'', ''temperature'', ''apparent_temperature'',
                         ''pressure'', ''ozone''}"
    by (simp add: example_sensor_def)
  from get_currently_state_rounding[of ?c ?dc "1 / 4" 0] percent
  have c: "\<exists>v n. get_currently_state ?c ?dc = Inr (PFloat v) \<and>
             float_value v = Some (to_double (of_int n / 10)) \<and>
             \<bar>of_int n / 10 - to_double (1 / 4 * 100)\<bar> \<le> (1 / 20 :: rat)"
    by blast
  from get_currently_state_rounding[of ?p ?dp "101325 / 100" 0] rounded
  have p: "\<exists>v n. get_currently_state ?p ?dp = Inr (PFloat v) \<and>
             float_value v = Some (to_double (of_int n / 10)) \<and>
             \<bar>of_int n / 10 - 101325 / 100\<bar> \<le> (1 / 20 :: rat)"
    by blast
  from get_currently_state_rounding[of ?h ?dh 0 1] percent_int
  have "get_currently_state ?h ?dh = Inr (PInt (1 * 100))"
    by blast
  then have h: "get_currently_state ?h ?dh = Inr (PInt 100)"
    by simp
  from get_currently_state_rounding[of ?o ?do 0 300] rounded_int
  have o: "get_currently_state ?o ?do = Inr (PInt 300)"
    by blast
  from get_currently_state_rounding[of ?w ?dw 0 0] other
  have "get_currently_state ?w ?dw =
          Inr (getattr ?dw (convert_to_camel (sensor_type ?w)) (PInt 0))"
    by blast
  then have w: "get_currently_state ?w ?dw = Inr (PFloat (Finite (to_double (3456 / 1000))))"
    by (simp add: example_sensor_def camel_w getattr_def)
  from c p h o w show ?thesis
    by blast
qed


section \<open>Properties of the weather data cache\<close>

lemma update_throttled:
  "throttled (last_update self) now \<Longrightarrow> update self now resp = (Returned, self)"
  by (simp add: update_def Throttle_def)

lemma update_fetch_fails:
  "\<not> throttled (last_update self) now \<Longrightarrow>
   update self now (Inl e) =
     (Raised (if e \<in> {ConnectError, HTTPError, Timeout, BadValue}
              then ValueError e else Uncaught e),
      self\<lparr>fetches := Suc (fetches self)\<rparr>)"
  by (simp add: update_def Throttle_def update_body_def)

lemma update_fetch_no_units:
  "\<not> throttled (last_update self) now \<Longrightarrow> flags_units d = None \<Longrightarrow>
   update self now (Inr d) =
     (Raised (KeyError ''units''),
      self\<lparr>fetches := Suc (fetches self), data := Some d, data_at := now\<rparr>)"
  by (simp add: update_def Throttle_def update_body_def)

lemma update_fetch_ok:
  "\<not> throttled (last_update self) now \<Longrightarrow> flags_units d = Some u \<Longrightarrow>
   update self now (Inr d) =
     (Returned,
      self\<lparr>fetches := Suc (fetches self), data := Some d, data_at := now,
           unit_system := Some u, last_update := Some now\<rparr>)"
  by (simp add: update_def Throttle_def update_body_def)

text \<open>
  Claim C9. \<open>update\<close> raises the value error that carries the exception \<open>e\<close> exactly
  when the call is not throttled (so the fetch is made) and the fetch raises \<open>e\<close>, one
  of the connection error, the HTTP error, the timeout and the library's value error.
  When the fetch returns a forecast with its unit flag, \<open>update\<close> returns, the cache
  holds that forecast, and its unit system is the flag of the forecast, whatever unit
  system was requested.
\<close>

theorem update_value_error_iff_fetch_fails:
  "(fst (update self now resp) = Raised (ValueError e) \<longleftrightarrow>
      \<not> throttled (last_update self) now \<and> resp = Inl e \<and>
      e \<in> {ConnectError, HTTPError, Timeout, BadValue}) \<and>
   (\<not> throttled (last_update self) now \<and> resp = Inr d \<and> flags_units d = Some u \<longrightarrow>
      fst (update self now resp) = Returned \<and>
      data (snd (update self now resp)) = Some d \<and>
      unit_system (snd (update self now resp)) = Some u \<and>
      units (snd (update self now resp)) = units self)"
proof (intro conjI impI)
  show "fst (update self now resp) = Raised (ValueError e) \<longleftrightarrow>
      \<not> throttled (last_update self) now \<and> resp = Inl e \<and>
      e \<in> {ConnectError, HTTPError, Timeout, BadValue}"
  proof (cases "throttled (last_update self) now")
    case True
    then show ?thesis
      by (simp add: update_throttled)
  next
    case False
    show ?thesis
    proof (cases resp)
      case (Inl e')
      with False show ?thesis
        by (auto simp: update_fetch_fails)
    next
      case (Inr d')
      with False show ?thesis
        by (cases "flags_units d'") (simp_all add: update_fetch_no_units update_fetch_ok)
    qed
  qed
next
  assume "\<not> throttled (last_update self) now \<and> resp = Inr d \<and> flags_units d = Some u"
  then have "update self now resp =
     (Returned,
      self\<lparr>fetches := Suc (fetches self), data := Some d, data_at := now,
           unit_system := Some u, last_update := Some now\<rparr>)"
    by (simp add: update_fetch_ok)
  then show "fst (update self now resp) = Returned"
    and "data (snd (update self now resp)) = Some d"
    and "unit_system (snd (update self now resp)) = Some u"
    and "units (snd (update self now resp)) = units self"
    by simp_all
qed

text \<open>
  An instance: a cache built at time 0 with \<open>si\<close> requested; 200 seconds later the
  fetch times out, or it returns a forecast flagged \<open>us\<close>.
\<close>

theorem update_value_error_iff_fetch_fails_witness:
  "fst (update
          (snd (ForeCastData_init (Some ''key'') 52 13 ''si'' 0
                  (Inr (example_forecast ''si'' ''first''))))
          200 (Inl Timeout)) = Raised (ValueError Timeout) \<and>
   fst (update
          (snd (ForeCastData_init (Some ''key'') 52 13 ''si'' 0
                  (Inr (example_forecast ''si'' ''first''))))
          200 (Inr (example_forecast ''us'' ''second''))) = Returned \<and>
   data (snd (update
          (snd (ForeCastData_init (Some ''key'') 52 13 ''si'' 0
                  (Inr (example_forecast ''si'' ''first''))))
          200 (Inr (example_forecast ''us'' ''second'')))) =
     Some (example_forecast ''us'' ''second'') \<and>
   unit_system (snd (update
          (snd (ForeCastData_init (Some ''key'') 52 13 ''si'' 0
                  (Inr (example_forecast ''si'' ''first''))))
          200 (Inr (example_forecast ''us'' ''second'')))) = Some ''us'' \<and>
   units (snd (update
          (snd (ForeCastData_init (Some ''key'') 52 13 ''si'' 0
                  (Inr (example_forecast ''si'' ''first''))))
          200 (Inr (example_forecast ''us'' ''second'')))) = ''si''"
proof -
  let ?c = "snd (ForeCastData_init (Some ''key'') 52 13 ''si'' 0
                  (Inr (example_forecast ''si'' ''first'')))"
  let ?d = "example_forecast ''us'' ''second''"
  have last: "last_update ?c = Some 0" and req: "units ?c = ''si''"
    by (simp_all add: ForeCastData_init_def update_fetch_ok throttled_def
        example_forecast_def)
  have free: "\<not> throttled (last_update ?c) 200"
    by (simp add: last throttled_def MIN_TIME_BETWEEN_UPDATES_def)
  have fails: "\<not> throttled (last_update ?c) 200 \<and> (Inl Timeout :: fetch_exc + forecast) = Inl Timeout \<and>
      Timeout \<in> {ConnectError, HTTPError, Timeout, BadValue}"
    using free by simp
  have works: "\<not> throttled (last_update ?c) 200 \<and>
      (Inr ?d :: fetch_exc + forecast) = Inr ?d \<and> flags_units ?d = Some ''us''"
    using free by (simp add: example_forecast_def)
  from update_value_error_iff_fetch_fails[of ?c 200 "Inl Timeout" Timeout] fails
  have a: "fst (update ?c 200 (Inl Timeout)) = Raised (ValueError Timeout)"
    by blast
  from update_value_error_iff_fetch_fails[of ?c 200 "Inr ?d" Timeout ?d "''us''"] works
  have b: "fst (update ?c 200 (Inr ?d)) = Returned \<and>
      data (snd (update ?c 200 (Inr ?d))) = Some ?d \<and>
      unit_system (snd (update ?c 200 (Inr ?d))) = Some ''us'' \<and>
      units (snd (update ?c 200 (Inr ?d))) = units ?c"
    by blast
  from a b req show ?thesis
    by simp
qed

text \<open>
  Claim C10. When \<open>update\<close> raises the value error, the cache is what it was before
  the call, but for the count of fetches: the payload, the unit system, the sub-views
  and the throttle state are all unchanged.
\<close>

theorem update_failure_keeps_cache:
  "fst (update self now resp) = Raised (ValueError e) \<longrightarrow>
     snd (update self now resp) = self\<lparr>fetches := Suc (fetches self)\<rparr> \<and>
     data (snd (update self now resp)) = data self \<and>
     unit_system (snd (update self now resp)) = unit_system self"
proof
  assume raised: "fst (update self now resp) = Raised (ValueError e)"
  have free: "\<not> throttled (last_update self) now"
    using raised by (auto simp: update_throttled)
  have "resp = Inl e"
  proof (cases resp)
    case (Inl e')
    with raised free show ?thesis
      by (auto simp: update_fetch_fails split: if_splits)
  next
    case (Inr d)
    with raised free show ?thesis
      by (cases "flags_units d") (simp_all add: update_fetch_no_units update_fetch_ok)
  qed
  with free have "snd (update self now resp) = self\<lparr>fetches := Suc (fetches self)\<rparr>"
    by (simp add: update_fetch_fails)
  then show "snd (update self now resp) = self\<lparr>fetches := Suc (fetches self)\<rparr> \<and>
     data (snd (update self now resp)) = data self \<and>
     unit_system (snd (update self now resp)) = unit_system self"
    by simp
qed

theorem update_failure_keeps_cache_witness:
  "fst (update
          (snd (ForeCastData_init (Some ''key'') 52 13 ''si'' 0
                  (Inr (example_forecast ''ca'' ''first''))))
          300 (Inl HTTPError)) = Raised (ValueError HTTPError) \<and>
   data (snd (update
          (snd (ForeCastData_init (Some ''key'') 52 13 ''si'' 0
                  (Inr (example_forecast ''ca'' ''first''))))
          300 (Inl HTTPError))) = Some (example_forecast ''ca'' ''first'') \<and>
   unit_system (snd (update
          (snd (ForeCastData_init (Some ''key'') 52 13 ''si'' 0
                  (Inr (example_forecast ''ca'' ''first''))))
          300 (Inl HTTPError))) = Some ''ca''"
proof -
  let ?c = "snd (ForeCastData_init (Some ''key'') 52 13 ''si'' 0
                  (Inr (example_forecast ''ca'' ''first'')))"
  have before: "last_update ?c = Some 0" "data ?c = Some (example_forecast ''ca'' ''first'')"
    "unit_system ?c = Some ''ca''"
    by (simp_all add: ForeCastData_init_def update_fetch_ok throttled_def
        example_forecast_def)
  have free: "\<not> throttled (last_update ?c) 300"
    by (simp add: before throttled_def MIN_TIME_BETWEEN_UPDATES_def)
  then have raised: "fst (update ?c 300 (Inl HTTPError)) = Raised (ValueError HTTPError)"
    by (simp add: update_fetch_fails)
  from update_failure_keeps_cache[of ?c 300 "Inl HTTPError" HTTPError] raised
  have "data (snd (update ?c 300 (Inl HTTPError))) = data ?c \<and>
     unit_system (snd (update ?c 300 (Inl HTTPError))) = unit_system ?c"
    by blast
  with raised before show ?thesis
    by simp
qed

lemma update_keeps_view_throttles:
  "(last_update_currently (snd (update self now resp)),
    last_update_minutely (snd (update self now resp)),
    last_update_hourly (snd (update self now resp)),
    last_update_daily (snd (update self now resp))) =
   (last_update_currently self, last_update_minutely self, last_update_hourly self,
    last_update_daily self)"
  by (auto simp: update_def Throttle_def update_body_def Let_def
      split: sum.splits option.splits)

lemma update_currently_throttled:
  "throttled (last_update_currently self) now \<Longrightarrow>
   update_currently self now = (Returned, self)"
  by (simp add: update_currently_def Throttle_def)

lemma update_currently_runs:
  "\<not> throttled (last_update_currently self) now \<Longrightarrow> data self = Some d \<Longrightarrow>
   update_currently self now =
     (Returned, self\<lparr>data_currently := Some (currently d), currently_at := data_at self,
                     last_update_currently := Some now\<rparr>)"
  by (simp add: update_currently_def Throttle_def update_currently_body_def)

lemma update_currently_no_data:
  "\<not> throttled (last_update_currently self) now \<Longrightarrow> data self = None \<Longrightarrow>
   update_currently self now = (Raised AttributeError, self)"
  by (simp add: update_currently_def Throttle_def update_currently_body_def)

lemma update_minutely_throttled:
  "throttled (last_update_minutely self) now \<Longrightarrow>
   update_minutely self now = (Returned, self)"
  by (simp add: update_minutely_def Throttle_def)

lemma update_minutely_runs:
  "\<not> throttled (last_update_minutely self) now \<Longrightarrow> data self = Some d \<Longrightarrow>
   update_minutely self now =
     (Returned, self\<lparr>data_minutely := Some (minutely d), minutely_at := data_at self,
                     last_update_minutely := Some now\<rparr>)"
  by (simp add: update_minutely_def Throttle_def update_minutely_body_def)

lemma update_minutely_no_data:
  "\<not> throttled (last_update_minutely self) now \<Longrightarrow> data self = None \<Longrightarrow>
   update_minutely self now = (Raised AttributeError, self)"
  by (simp add: update_minutely_def Throttle_def update_minutely_body_def)

lemma update_hourly_throttled:
  "throttled (last_update_hourly self) now \<Longrightarrow>
   update_hourly self now = (Returned, self)"
  by (simp add: update_hourly_def Throttle_def)

lemma update_hourly_runs:
  "\<not> throttled (last_update_hourly self) now \<Longrightarrow> data self = Some d \<Longrightarrow>
   update_hourly self now =
     (Returned, self\<lparr>data_hourly := Some (hourly d), hourly_at := data_at self,
                     last_update_hourly := Some now\<rparr>)"
  by (simp add: update_hourly_def Throttle_def update_hourly_body_def)

lemma update_hourly_no_data:
  "\<not> throttled (last_update_hourly self) now \<Longrightarrow> data self = None \<Longrightarrow>
   update_hourly self now = (Raised AttributeError, self)"
  by (simp add: update_hourly_def Throttle_def update_hourly_body_def)

lemma update_daily_throttled:
  "throttled (last_update_daily self) now \<Longrightarrow>
   update_daily self now = (Returned, self)"
  by (simp add: update_daily_def Throttle_def)

lemma update_daily_runs:
  "\<not> throttled (last_update_daily self) now \<Longrightarrow> data self = Some d \<Longrightarrow>
   update_daily self now =
     (Returned, self\<lparr>data_daily := Some (daily d), daily_at := data_at self,
                     last_update_daily := Some now\<rparr>)"
  by (simp add: update_daily_def Throttle_def update_daily_body_def)

lemma update_daily_no_data:
  "\<not> throttled (last_update_daily self) now \<Longrightarrow> data self = None \<Longrightarrow>
   update_daily self now = (Raised AttributeError, self)"
  by (simp add: update_daily_def Throttle_def update_daily_body_def)

lemma view_update_keeps_other_throttles:
  "(last_update (snd (update_currently self now)),
    last_update_minutely (snd (update_currently self now)),
    last_update_hourly (snd (update_currently self now)),
    last_update_daily (snd (update_currently self now))) =
   (last_update self, last_update_minutely self, last_update_hourly self,
    last_update_daily self)"
  "(last_update (snd (update_minutely self now)),
    last_update_currently (snd (update_minutely self now)),
    last_update_hourly (snd (update_minutely self now)),
    last_update_daily (snd (update_minutely self now))) =
   (last_update self, last_update_currently self, last_update_hourly self,
    last_update_daily self)"
  "(last_update (snd (update_hourly self now)),
    last_update_currently (snd (update_hourly self now)),
    last_update_minutely (snd (update_hourly self now)),
    last_update_daily (snd (update_hourly self now))) =
   (last_update self, last_update_currently self, last_update_minutely self,
    last_update_daily self)"
  "(last_update (snd (update_daily self now)),
    last_update_currently (snd (update_daily self now)),
    last_update_minutely (snd (update_daily self now)),
    last_update_hourly (snd (update_daily self now))) =
   (last_update self, last_update_currently self, last_update_minutely self,
    last_update_hourly self)"
  by (auto simp: update_currently_def update_minutely_def update_hourly_def
      update_daily_def Throttle_def update_currently_body_def update_minutely_body_def
      update_hourly_body_def update_daily_body_def split: option.splits)

lemma update_returned_unthrottled:
  assumes "\<not> throttled (last_update self) now"
    and "update self now resp = (Returned, self1)"
  shows "\<exists>d u. resp = Inr d \<and> flags_units d = Some u \<and>
           self1 = self\<lparr>fetches := Suc (fetches self), data := Some d, data_at := now,
                        unit_system := Some u, last_update := Some now\<rparr>"
proof (cases resp)
  case (Inl e)
  with assms show ?thesis
    by (simp add: update_fetch_fails)
next
  case (Inr d)
  with assms show ?thesis
    by (cases "flags_units d") (auto simp: update_fetch_no_units update_fetch_ok)
qed

text \<open>
  Claim C1, as the spec states it, fails: two calls of \<open>update\<close> within 120 seconds do
  not always make exactly one fetch. On a cache built at time 0 (one fetch so far), a
  call at 500 whose fetch times out and a call at 510 both run the body, since a call
  that raises does not start the interval: the count of fetches goes from 1 to 3. Calls
  at 10 and 20 are both inside the interval that the fetch at 0 started: neither
  fetches, and the count stays 1.
\<close>

theorem two_updates_one_fetch_counterexample:
  "fetches (snd (ForeCastData_init (Some ''key'') 52 13 ''si'' 0
                   (Inr (example_forecast ''si'' ''first'')))) = 1 \<and>
   fst (update
          (snd (ForeCastData_init (Some ''key'') 52 13 ''si'' 0
                  (Inr (example_forecast ''si'' ''first''))))
          500 (Inl Timeout)) = Raised (ValueError Timeout) \<and>
   fetches (snd (update
          (snd (update
             (snd (ForeCastData_init (Some ''key'') 52 13 ''si'' 0
                     (Inr (example_forecast ''si'' ''first''))))
             500 (Inl Timeout)))
          510 (Inr (example_forecast ''si'' ''second'')))) = 3 \<and>
   fetches (snd (update
          (snd (update
             (snd (ForeCastData_init (Some ''key'') 52 13 ''si'' 0
                     (Inr (example_forecast ''si'' ''first''))))
             10 (Inr (example_forecast ''si'' ''second''))))
          20 (Inr (example_forecast ''si'' ''third'')))) = 1"
proof -
  let ?c = "snd (ForeCastData_init (Some ''key'') 52 13 ''si'' 0
                  (Inr (example_forecast ''si'' ''first'')))"
  have c: "last_update ?c = Some 0" "fetches ?c = 1"
    by (simp_all add: ForeCastData_init_def update_fetch_ok throttled_def
        example_forecast_def)
  have late: "\<not> throttled (last_update ?c) 500"
    by (simp add: c throttled_def MIN_TIME_BETWEEN_UPDATES_def)
  then have failed: "update ?c 500 (Inl Timeout) =
      (Raised (ValueError Timeout), ?c\<lparr>fetches := Suc (fetches ?c)\<rparr>)"
    by (simp add: update_fetch_fails)
  have flag: "flags_units (example_forecast ''si'' ''second'') = Some ''si''"
    by (simp add: example_forecast_def)
  have free: "\<not> throttled (last_update (?c\<lparr>fetches := Suc (fetches ?c)\<rparr>)) 510"
    by (simp add: c throttled_def MIN_TIME_BETWEEN_UPDATES_def)
  have again: "fetches (snd (update (?c\<lparr>fetches := Suc (fetches ?c)\<rparr>) 510
      (Inr (example_forecast ''si'' ''second'')))) = 3"
    unfolding update_fetch_ok[OF free flag] by (simp add: c)
  have early: "throttled (last_update ?c) 10" "throttled (last_update ?c) 20"
    by (simp_all add: c throttled_def MIN_TIME_BETWEEN_UPDATES_def)
  then have none: "fetches (snd (update (snd (update ?c 10
      (Inr (example_forecast ''si'' ''second'')))) 20
      (Inr (example_forecast ''si'' ''third'')))) = 1"
    by (simp add: update_throttled c)
  from c failed again none show ?thesis
    by simp
qed

text \<open>
  Claim C1, amended. When a call of \<open>update\<close> at time \<open>t1\<close> runs its body and returns,
  a second call less than 120 seconds later returns without a fetch and without any
  change of the cache: the two calls make one fetch. A call of \<open>update_daily\<close> at that later time
  whose own throttle was not active before the call of \<open>update\<close> still runs its body,
  and takes the daily sub-view of the payload just fetched. None of the five operations
  changes the throttle state of another one.
\<close>

theorem throttle_tracked_per_operation:
  "(\<not> throttled (last_update self) t1 \<and> update self t1 resp1 = (Returned, self1) \<and>
    t2 - t1 < 120 \<longrightarrow>
      update self1 t2 resp2 = (Returned, self1) \<and>
      fetches (snd (update self1 t2 resp2)) = fetches self + 1 \<and>
      (\<not> throttled (last_update_daily self) t2 \<longrightarrow>
         (\<exists>d. resp1 = Inr d \<and> data self1 = Some d \<and>
              update_daily self1 t2 =
                (Returned, self1\<lparr>data_daily := Some (daily d), daily_at := t1,
                                 last_update_daily := Some t2\<rparr>)))) \<and>
   (last_update_currently (snd (update self t resp)),
    last_update_minutely (snd (update self t resp)),
    last_update_hourly (snd (update self t resp)),
    last_update_daily (snd (update self t resp))) =
   (last_update_currently self, last_update_minutely self, last_update_hourly self,
    last_update_daily self) \<and>
   (last_update (snd (update_currently self t)),
    last_update_minutely (snd (update_currently self t)),
    last_update_hourly (snd (update_currently self t)),
    last_update_daily (snd (update_currently self t))) =
   (last_update self, last_update_minutely self, last_update_hourly self,
    last_update_daily self) \<and>
   (last_update (snd (update_minutely self t)),
    last_update_currently (snd (update_minutely self t)),
    last_update_hourly (snd (update_minutely self t)),
    last_update_daily (snd (update_minutely self t))) =
   (last_update self, last_update_currently self, last_update_hourly self,
    last_update_daily self) \<and>
   (last_update (snd (update_hourly self t)),
    last_update_currently (snd (update_hourly self t)),
    last_update_minutely (snd (update_hourly self t)),
    last_update_daily (snd (update_hourly self t))) =
   (last_update self, last_update_currently self, last_update_minutely self,
    last_update_daily self) \<and>
   (last_update (snd (update_daily self t)),
    last_update_currently (snd (update_daily self t)),
    last_update_minutely (snd (update_daily self t)),
    last_update_hourly (snd (update_daily self t))) =
   (last_update self, last_update_currently self, last_update_minutely self,
    last_update_hourly self)"
proof (intro conjI impI)
  assume h: "\<not> throttled (last_update self) t1 \<and> update self t1 resp1 = (Returned, self1) \<and>
    t2 - t1 < 120"
  then obtain d u where d: "resp1 = Inr d" "flags_units d = Some u"
    and s1: "self1 = self\<lparr>fetches := Suc (fetches self), data := Some d, data_at := t1,
                        unit_system := Some u, last_update := Some t1\<rparr>"
    using update_returned_unthrottled[of self t1 resp1 self1] by blast
  from h s1 have thr: "throttled (last_update self1) t2"
    by (simp add: throttled_def MIN_TIME_BETWEEN_UPDATES_def)
  then show second: "update self1 t2 resp2 = (Returned, self1)"
    by (rule update_throttled)
  show "fetches (snd (update self1 t2 resp2)) = fetches self + 1"
    by (simp add: second) (simp add: s1)
  {
    assume free: "\<not> throttled (last_update_daily self) t2"
    from s1 have "last_update_daily self1 = last_update_daily self" "data self1 = Some d"
      "data_at self1 = t1"
      by simp_all
    with free have "update_daily self1 t2 =
                (Returned, self1\<lparr>data_daily := Some (daily d), daily_at := t1,
                                 last_update_daily := Some t2\<rparr>)"
      using update_daily_runs[of self1 t2 d] by simp
    with d \<open>data self1 = Some d\<close>
    show "\<exists>d. resp1 = Inr d \<and> data self1 = Some d \<and>
              update_daily self1 t2 =
                (Returned, self1\<lparr>data_daily := Some (daily d), daily_at := t1,
                                 last_update_daily := Some t2\<rparr>)"
      by blast
  }
qed (rule update_keeps_view_throttles view_update_keeps_other_throttles)+

text \<open>
  An instance: a cache built at time 0; a call of \<open>update\<close> at 500 fetches, one at 619
  does not, and \<open>update_daily\<close> at 619 takes the daily sub-view of the second payload.
\<close>

theorem throttle_tracked_per_operation_witness:
  "fst (update
          (snd (update
             (snd (ForeCastData_init (Some ''key'') 52 13 ''si'' 0
                     (Inr (example_forecast ''si'' ''first''))))
             500 (Inr (example_forecast ''si'' ''second''))))
          619 (Inr (example_forecast ''si'' ''third''))) = Returned \<and>
   fetches (snd (update
          (snd (update
             (snd (ForeCastData_init (Some ''key'') 52 13 ''si'' 0
                     (Inr (example_forecast ''si'' ''first''))))
             500 (Inr (example_forecast ''si'' ''second''))))
          619 (Inr (example_forecast ''si'' ''third'')))) = 2 \<and>
   data_daily (snd (update_daily
          (snd (update
             (snd (ForeCastData_init (Some ''key'') 52 13 ''si'' 0
                     (Inr (example_forecast ''si'' ''first''))))
             500 (Inr (example_forecast ''si'' ''second''))))
          619)) = Some [(''summary'', PStr ''second'')]"
proof -
  let ?c = "snd (ForeCastData_init (Some ''key'') 52 13 ''si'' 0
                  (Inr (example_forecast ''si'' ''first'')))"
  let ?r1 = "Inr (example_forecast ''si'' ''second'') :: fetch_exc + forecast"
  let ?r2 = "Inr (example_forecast ''si'' ''third'') :: fetch_exc + forecast"
  let ?c1 = "snd (update ?c 500 ?r1)"
  have c: "last_update ?c = Some 0" "last_update_daily ?c = None" "fetches ?c = 1"
    by (simp_all add: ForeCastData_init_def update_fetch_ok throttled_def
        example_forecast_def)
  have free: "\<not> throttled (last_update ?c) 500"
    by (simp add: c throttled_def MIN_TIME_BETWEEN_UPDATES_def)
  then have "fst (update ?c 500 ?r1) = Returned"
    by (simp add: update_fetch_ok example_forecast_def)
  then have first: "update ?c 500 ?r1 = (Returned, ?c1)"
    by (simp add: prod_eq_iff)
  have near: "(619 :: int) - 500 < 120"
    by simp
  have daily_free: "\<not> throttled (last_update_daily ?c) 619"
    by (simp add: c throttled_def)
  from throttle_tracked_per_operation[of ?c 500 ?r1 ?c1 619 ?r2] free first near daily_free
  have second: "update ?c1 619 ?r2 = (Returned, ?c1)"
    and count: "fetches (snd (update ?c1 619 ?r2)) = fetches ?c + 1"
    and "\<exists>d. ?r1 = Inr d \<and> data ?c1 = Some d \<and>
              update_daily ?c1 619 =
                (Returned, ?c1\<lparr>data_daily := Some (daily d), daily_at := 500,
                                 last_update_daily := Some 619\<rparr>)"
    by blast+
  then have "data_daily (snd (update_daily ?c1 619)) =
               Some (daily (example_forecast ''si'' ''second''))"
    by auto
  with second count c show ?thesis
    by (simp add: example_forecast_def)
qed

section \<open>Properties of the platform setup\<close>

lemma init_fetch_fails:
  "e \<in> {ConnectError, HTTPError, Timeout, BadValue} \<Longrightarrow>
   fst (ForeCastData_init k lat lon u now (Inl e)) = Raised (ValueError e)"
  by (simp add: ForeCastData_init_def update_fetch_fails throttled_def)

text \<open>
  Claim C8. \<open>setup_platform\<close> returns \<open>False\<close>, calls \<open>add_devices\<close> not at all and
  constructs no sensor when the host has no latitude or no longitude, when the API key
  is missing from the platform's configuration, and when the first fetch raises one of
  the exceptions that \<open>update\<close> turns into a value error.
\<close>

theorem setup_platform_fails_without_devices:
  "(hc_latitude hass = None \<or> hc_longitude hass = None \<longrightarrow>
      setup_platform TEMP_CELSIUS hass config now resp = setup_failed) \<and>
   (conf_api_key config = None \<longrightarrow>
      setup_platform TEMP_CELSIUS hass config now resp = setup_failed) \<and>
   (resp = Inl e \<and> e \<in> {ConnectError, HTTPError, Timeout, BadValue} \<longrightarrow>
      setup_platform TEMP_CELSIUS hass config now resp = setup_failed) \<and>
   returned setup_failed = ReturnFalse \<and>
   added_devices setup_failed = None \<and>
   created setup_failed = []"
proof (intro conjI impI)
  assume "hc_latitude hass = None \<or> hc_longitude hass = None"
  then show "setup_platform TEMP_CELSIUS hass config now resp = setup_failed"
    by (auto simp: setup_platform_def split: option.splits)
next
  assume "conf_api_key config = None"
  then show "setup_platform TEMP_CELSIUS hass config now resp = setup_failed"
    by (simp add: setup_platform_def validate_config_def split: option.splits)
next
  assume h: "resp = Inl e \<and> e \<in> {ConnectError, HTTPError, Timeout, BadValue}"
  have "\<And>k lat lon u.
          (case ForeCastData_init k lat lon u now resp of
             (Raised (ValueError error), _) \<Rightarrow> setup_failed
           | (Raised ex, _) \<Rightarrow> setup_failed\<lparr>returned := Propagate ex\<rparr>
           | (Returned, fd) \<Rightarrow> other fd) = setup_failed" for other
  proof -
    fix k lat lon u
    from h have "fst (ForeCastData_init k lat lon u now resp) = Raised (ValueError e)"
      using init_fetch_fails[of e k lat lon u now] by simp
    then show "(case ForeCastData_init k lat lon u now resp of
             (Raised (ValueError error), _) \<Rightarrow> setup_failed
           | (Raised ex, _) \<Rightarrow> setup_failed\<lparr>returned := Propagate ex\<rparr>
           | (Returned, fd) \<Rightarrow> other fd) = setup_failed"
      by (cases "ForeCastData_init k lat lon u now resp") simp
  qed
  then show "setup_platform TEMP_CELSIUS hass config now resp = setup_failed"
    by (simp add: setup_platform_def Let_def split: option.splits)
qed (simp_all add: setup_failed_def)

text \<open>
  An instance: the example configuration without a latitude, without an API key, and
  with a service that refuses the connection.
\<close>

theorem setup_platform_fails_without_devices_witness:
  "returned (setup_platform ''C'' (example_hass\<lparr>hc_latitude := None\<rparr>) example_config 0
      (Inr (example_forecast ''si'' ''first''))) = ReturnFalse \<and>
   added_devices (setup_platform ''C'' (example_hass\<lparr>hc_latitude := None\<rparr>) example_config 0
      (Inr (example_forecast ''si'' ''first''))) = None \<and>
   returned (setup_platform ''C'' example_hass (example_config\<lparr>conf_api_key := None\<rparr>) 0
      (Inr (example_forecast ''si'' ''first''))) = ReturnFalse \<and>
   added_devices (setup_platform ''C'' example_hass (example_config\<lparr>conf_api_key := None\<rparr>) 0
      (Inr (example_forecast ''si'' ''first''))) = None \<and>
   returned (setup_platform ''C'' example_hass example_config 0 (Inl ConnectError)) =
     ReturnFalse \<and>
   added_devices (setup_platform ''C'' example_hass example_config 0 (Inl ConnectError)) =
     None \<and>
   created (setup_platform ''C'' example_hass example_config 0 (Inl ConnectError)) = []"
proof -
  let ?r = "Inr (example_forecast ''si'' ''first'') :: fetch_exc + forecast"
  let ?down = "Inl ConnectError :: fetch_exc + forecast"
  have nowhere: "hc_latitude (example_hass\<lparr>hc_latitude := None\<rparr>) = None \<or>
      hc_longitude (example_hass\<lparr>hc_latitude := None\<rparr>) = None"
    by simp
  have nokey: "conf_api_key (example_config\<lparr>conf_api_key := None\<rparr>) = None"
    by simp
  have down: "?down = Inl ConnectError \<and>
      ConnectError \<in> {ConnectError, HTTPError, Timeout, BadValue}"
    by simp
  from setup_platform_fails_without_devices
         [of "example_hass\<lparr>hc_latitude := None\<rparr>" "''C''" example_config 0 ?r] nowhere
  have a: "setup_platform ''C'' (example_hass\<lparr>hc_latitude := None\<rparr>) example_config 0 ?r =
             setup_failed"
    by blast
  from setup_platform_fails_without_devices
         [of example_hass "''C''" "example_config\<lparr>conf_api_key := None\<rparr>" 0 ?r] nokey
  have b: "setup_platform ''C'' example_hass (example_config\<lparr>conf_api_key := None\<rparr>) 0 ?r =
             setup_failed"
    by blast
  from setup_platform_fails_without_devices
         [of example_hass "''C''" example_config 0 ?down ConnectError] down
  have c: "setup_platform ''C'' example_hass example_config 0 ?down = setup_failed"
    by blast
  show ?thesis
    unfolding a b c by (simp add: setup_failed_def)
qed

section \<open>Freshness of what a sensor reads\<close>

lemma update_post:
  assumes inv: "cache_inv fd" and upd: "update fd now resp = (out, fd1)"
  shows "cache_inv fd1"
    and "out = Returned \<Longrightarrow> now - data_at fd1 < MIN_TIME_BETWEEN_UPDATES"
    and "MIN_TIME_BETWEEN_UPDATES \<le> now - data_at fd \<Longrightarrow> fetches fd1 = Suc (fetches fd)"
proof -
  from inv obtain u where u: "last_update fd = Some u" "data fd \<noteq> None" "u \<le> data_at fd"
    by (auto simp: cache_inv_def split: option.splits)
  have "cache_inv fd1 \<and>
        (out = Returned \<longrightarrow> now - data_at fd1 < MIN_TIME_BETWEEN_UPDATES) \<and>
        (MIN_TIME_BETWEEN_UPDATES \<le> now - data_at fd \<longrightarrow> fetches fd1 = Suc (fetches fd))"
  proof (cases "throttled (last_update fd) now")
    case True
    with upd have "out = Returned" "fd1 = fd"
      by (simp_all add: update_throttled)
    moreover from True u have "now - data_at fd < MIN_TIME_BETWEEN_UPDATES"
      by (simp add: throttled_def)
    ultimately show ?thesis
      using inv by simp
  next
    case False
    with u have late: "u \<le> now"
      by (simp add: throttled_def MIN_TIME_BETWEEN_UPDATES_def)
    show ?thesis
    proof (cases resp)
      case (Inl e)
      with False upd have "fd1 = fd\<lparr>fetches := Suc (fetches fd)\<rparr>" "out \<noteq> Returned"
        by (auto simp: update_fetch_fails)
      then show ?thesis
        using inv u by (simp add: cache_inv_def)
    next
      case (Inr d)
      show ?thesis
      proof (cases "flags_units d")
        case None
        with False Inr upd
        have "fd1 = fd\<lparr>fetches := Suc (fetches fd), data := Some d, data_at := now\<rparr>"
          "out \<noteq> Returned"
          by (auto simp: update_fetch_no_units)
        then show ?thesis
          using inv u late by (simp add: cache_inv_def)
      next
        case (Some un)
        with False Inr upd
        have "fd1 = fd\<lparr>fetches := Suc (fetches fd), data := Some d, data_at := now,
                        unit_system := Some un, last_update := Some now\<rparr>"
          by (auto simp: update_fetch_ok)
        then show ?thesis
          using inv u by (simp add: cache_inv_def MIN_TIME_BETWEEN_UPDATES_def)
      qed
    qed
  qed
  then show "cache_inv fd1"
    and "out = Returned \<Longrightarrow> now - data_at fd1 < MIN_TIME_BETWEEN_UPDATES"
    and "MIN_TIME_BETWEEN_UPDATES \<le> now - data_at fd \<Longrightarrow> fetches fd1 = Suc (fetches fd)"
    by simp_all
qed

lemma update_currently_post:
  assumes inv: "cache_inv fd1" and young: "now - data_at fd1 < MIN_TIME_BETWEEN_UPDATES"
    and upd: "update_currently fd1 now = (out, fd2)"
  shows "cache_inv fd2 \<and> out = Returned \<and> data_at fd2 = data_at fd1 \<and>
         fetches fd2 = fetches fd1 \<and>
         now - currently_at fd2 < 2 * MIN_TIME_BETWEEN_UPDATES"
proof (cases "throttled (last_update_currently fd1) now")
  case True
  with upd have "out = Returned" "fd2 = fd1"
    by (simp_all add: update_currently_throttled)
  moreover from True inv have "now - currently_at fd1 < 2 * MIN_TIME_BETWEEN_UPDATES"
    by (auto simp: throttled_def cache_inv_def view_inv_def split: option.splits)
  ultimately show ?thesis
    using inv by simp
next
  case False
  from inv obtain d where "data fd1 = Some d"
    by (auto simp: cache_inv_def split: option.splits)
  with False upd
  have "out = Returned"
    "fd2 = fd1\<lparr>data_currently := Some (currently d), currently_at := data_at fd1,
              last_update_currently := Some now\<rparr>"
    by (simp_all add: update_currently_runs)
  then show ?thesis
    using inv young
    by (auto simp: cache_inv_def view_inv_def MIN_TIME_BETWEEN_UPDATES_def
        split: option.splits)
qed

lemma update_minutely_post:
  assumes inv: "cache_inv fd1" and young: "now - data_at fd1 < MIN_TIME_BETWEEN_UPDATES"
    and upd: "update_minutely fd1 now = (out, fd2)"
  shows "cache_inv fd2 \<and> out = Returned \<and> data_at fd2 = data_at fd1 \<and>
         fetches fd2 = fetches fd1 \<and>
         now - minutely_at fd2 < 2 * MIN_TIME_BETWEEN_UPDATES"
proof (cases "throttled (last_update_minutely fd1) now")
  case True
  with upd have "out = Returned" "fd2 = fd1"
    by (simp_all add: update_minutely_throttled)
  moreover from True inv have "now - minutely_at fd1 < 2 * MIN_TIME_BETWEEN_UPDATES"
    by (auto simp: throttled_def cache_inv_def view_inv_def split: option.splits)
  ultimately show ?thesis
    using inv by simp
next
  case False
  from inv obtain d where "data fd1 = Some d"
    by (auto simp: cache_inv_def split: option.splits)
  with False upd
  have "out = Returned"
    "fd2 = fd1\<lparr>data_minutely := Some (minutely d), minutely_at := data_at fd1,
              last_update_minutely := Some now\<rparr>"
    by (simp_all add: update_minutely_runs)
  then show ?thesis
    using inv young
    by (auto simp: cache_inv_def view_inv_def MIN_TIME_BETWEEN_UPDATES_def
        split: option.splits)
qed

lemma update_hourly_post:
  assumes inv: "cache_inv fd1" and young: "now - data_at fd1 < MIN_TIME_BETWEEN_UPDATES"
    and upd: "update_hourly fd1 now = (out, fd2)"
  shows "cache_inv fd2 \<and> out = Returned \<and> data_at fd2 = data_at fd1 \<and>
         fetches fd2 = fetches fd1 \<and>
         now - hourly_at fd2 < 2 * MIN_TIME_BETWEEN_UPDATES"
proof (cases "throttled (last_update_hourly fd1) now")
  case True
  with upd have "out = Returned" "fd2 = fd1"
    by (simp_all add: update_hourly_throttled)
  moreover from True inv have "now - hourly_at fd1 < 2 * MIN_TIME_BETWEEN_UPDATES"
    by (auto simp: throttled_def cache_inv_def view_inv_def split: option.splits)
  ultimately show ?thesis
    using inv by simp
next
  case False
  from inv obtain d where "data fd1 = Some d"
    by (auto simp: cache_inv_def split: option.splits)
  with False upd
  have "out = Returned"
    "fd2 = fd1\<lparr>data_hourly := Some (hourly d), hourly_at := data_at fd1,
              last_update_hourly := Some now\<rparr>"
    by (simp_all add: update_hourly_runs)
  then show ?thesis
    using inv young
    by (auto simp: cache_inv_def view_inv_def MIN_TIME_BETWEEN_UPDATES_def
        split: option.splits)
qed

lemma update_daily_post:
  assumes inv: "cache_inv fd1" and young: "now - data_at fd1 < MIN_TIME_BETWEEN_UPDATES"
    and upd: "update_daily fd1 now = (out, fd2)"
  shows "cache_inv fd2 \<and> out = Returned \<and> data_at fd2 = data_at fd1 \<and>
         fetches fd2 = fetches fd1 \<and>
         now - daily_at fd2 < 2 * MIN_TIME_BETWEEN_UPDATES"
proof (cases "throttled (last_update_daily fd1) now")
  case True
  with upd have "out = Returned" "fd2 = fd1"
    by (simp_all add: update_daily_throttled)
  moreover from True inv have "now - daily_at fd1 < 2 * MIN_TIME_BETWEEN_UPDATES"
    by (auto simp: throttled_def cache_inv_def view_inv_def split: option.splits)
  ultimately show ?thesis
    using inv by simp
next
  case False
  from inv obtain d where "data fd1 = Some d"
    by (auto simp: cache_inv_def split: option.splits)
  with False upd
  have "out = Returned"
    "fd2 = fd1\<lparr>data_daily := Some (daily d), daily_at := data_at fd1,
              last_update_daily := Some now\<rparr>"
    by (simp_all add: update_daily_runs)
  then show ?thesis
    using inv young
    by (auto simp: cache_inv_def view_inv_def MIN_TIME_BETWEEN_UPDATES_def
        split: option.splits)
qed

lemma update_unit_keeps_type:
  "sensor_type (snd (update_unit_of_measurement s fd)) = sensor_type s"
  by (simp add: update_unit_of_measurement_def Let_def split: option.splits)

lemma sensor_update_post:
  assumes inv: "cache_inv fd" and su: "sensor_update s fd now resp = (out, s', fd')"
  shows "cache_inv fd' \<and>
         (MIN_TIME_BETWEEN_UPDATES \<le> now - data_at fd \<longrightarrow> fetches fd' = Suc (fetches fd)) \<and>
         (out = Returned \<longrightarrow>
            now - data_at fd' < MIN_TIME_BETWEEN_UPDATES \<and>
            now - consumed_at (sensor_type s) fd' < 2 * MIN_TIME_BETWEEN_UPDATES)"
proof -
  obtain o1 fd1 where u: "update fd now resp = (o1, fd1)"
    by (cases "update fd now resp")
  note p1 = update_post[OF inv u]
  show ?thesis
  proof (cases o1)
    case (Raised e)
    with su u have "out = Raised e" "fd' = fd1"
      by (simp_all add: sensor_update_def)
    with p1 show ?thesis
      by simp
  next
    case Returned
    with p1 have young: "now - data_at fd1 < MIN_TIME_BETWEEN_UPDATES"
      by simp
    obtain o2 s1 where uu: "update_unit_of_measurement s fd1 = (o2, s1)"
      by (cases "update_unit_of_measurement s fd1")
    have ty: "sensor_type s1 = sensor_type s"
      using update_unit_keeps_type[of s fd1] uu by simp
    show ?thesis
    proof (cases o2)
      case (Raised e)
      with su u uu Returned have "out = Raised e" "fd' = fd1"
        by (simp_all add: sensor_update_def)
      with p1 show ?thesis
        by simp
    next
      case r2: Returned
      consider (m) "sensor_type s = ''minutely_summary''"
        | (h) "sensor_type s \<noteq> ''minutely_summary''" "sensor_type s = ''hourly_summary''"
        | (d) "sensor_type s \<noteq> ''minutely_summary''" "sensor_type s \<noteq> ''hourly_summary''"
              "sensor_type s = ''daily_summary''"
        | (c) "sensor_type s \<noteq> ''minutely_summary''" "sensor_type s \<noteq> ''hourly_summary''"
              "sensor_type s \<noteq> ''daily_summary''"
        by blast
      then show ?thesis
      proof cases
        case m
        obtain o3 fd2 where v: "update_minutely fd1 now = (o3, fd2)"
          by (cases "update_minutely fd1 now")
        note p2 = update_minutely_post[OF p1(1) young v]
        with su u uu Returned r2 m ty v have "fd' = fd2"
          by (simp add: sensor_update_def)
        with p1 p2 m young show ?thesis
          by (simp add: consumed_at_def)
      next
        case h
        obtain o3 fd2 where v: "update_hourly fd1 now = (o3, fd2)"
          by (cases "update_hourly fd1 now")
        note p2 = update_hourly_post[OF p1(1) young v]
        with su u uu Returned r2 h ty v have "fd' = fd2"
          by (simp add: sensor_update_def)
        with p1 p2 h young show ?thesis
          by (simp add: consumed_at_def)
      next
        case d
        obtain o3 fd2 where v: "update_daily fd1 now = (o3, fd2)"
          by (cases "update_daily fd1 now")
        note p2 = update_daily_post[OF p1(1) young v]
        with su u uu Returned r2 d ty v have "fd' = fd2"
          by (simp add: sensor_update_def)
        with p1 p2 d young show ?thesis
          by (simp add: consumed_at_def)
      next
        case c
        obtain o3 fd2 where v: "update_currently fd1 now = (o3, fd2)"
          by (cases "update_currently fd1 now")
        note p2 = update_currently_post[OF p1(1) young v]
        with su u uu Returned r2 c ty v have "fd' = fd2"
          by (auto simp: sensor_update_def split: sum.splits)
        with p1 p2 c young show ?thesis
          by (simp add: consumed_at_def)
      qed
    qed
  qed
qed
lemma init_post:
  assumes "ForeCastData_init k lat lon u now resp = (Returned, fd)"
  shows "cache_inv fd \<and> now - data_at fd < MIN_TIME_BETWEEN_UPDATES"
proof -
  let ?blank = "\<lparr>priv_api_key = k, latitude = lat, longitude = lon, units = u,
        data = None, unit_system = None,
        data_currently = None, data_minutely = None, data_hourly = None, data_daily = None,
        last_update = None, last_update_currently = None, last_update_minutely = None,
        last_update_hourly = None, last_update_daily = None,
        fetches = 0, data_at = 0, currently_at = 0, minutely_at = 0, hourly_at = 0,
        daily_at = 0\<rparr>"
  have "\<not> throttled (last_update ?blank) now"
    by (simp add: throttled_def)
  moreover from assms have "update ?blank now resp = (Returned, fd)"
    by (simp add: ForeCastData_init_def)
  ultimately obtain d un where
    "fd = ?blank\<lparr>fetches := Suc (fetches ?blank), data := Some d, data_at := now,
                  unit_system := Some un, last_update := Some now\<rparr>"
    using update_returned_unthrottled[of ?blank now resp fd] by blast
  then show ?thesis
    by (simp add: cache_inv_def view_inv_def MIN_TIME_BETWEEN_UPDATES_def)
qed

lemma sensor_init_inv:
  assumes "cache_inv fd" and "ForeCastSensor_init fd v nm now resp = (out, s, fd')"
  shows "cache_inv fd'"
proof (cases "map_of SENSOR_TYPES v")
  case None
  with assms show ?thesis
    by (simp add: ForeCastSensor_init_def)
next
  case (Some row)
  with assms(2) obtain s0 where "sensor_update s0 fd now resp = (out, s, fd')"
    by (simp add: ForeCastSensor_init_def)
  with assms(1) show ?thesis
    using sensor_update_post by blast
qed

lemma sensors_loop_inv:
  "cache_inv fd \<Longrightarrow> sensors_loop vs nm now resp acc fd = (out, ss, fd') \<Longrightarrow> cache_inv fd'"
proof (induction vs arbitrary: acc fd)
  case Nil
  then show ?case
    by simp
next
  case (Cons v vs)
  show ?case
  proof (cases "map_of SENSOR_TYPES v \<noteq> None")
    case False
    with Cons.prems have "sensors_loop vs nm now resp acc fd = (out, ss, fd')"
      by simp
    with Cons.IH Cons.prems(1) show ?thesis
      by blast
  next
    case True
    obtain o1 s1 fd1 where i: "ForeCastSensor_init fd v nm now resp = (o1, s1, fd1)"
      by (cases "ForeCastSensor_init fd v nm now resp")
    with Cons.prems(1) have inv1: "cache_inv fd1"
      by (rule sensor_init_inv)
    show ?thesis
    proof (cases o1)
      case Returned
      with True i Cons.prems(2)
      have "sensors_loop vs nm now resp (acc @ [s1]) fd1 = (out, ss, fd')"
        by simp
      with Cons.IH inv1 show ?thesis
        by blast
    next
      case (Raised e)
      with True i Cons.prems(2) have "fd' = fd1"
        by simp
      with inv1 show ?thesis
        by simp
    qed
  qed
qed

lemma setup_platform_inv:
  assumes "cache (setup_platform TEMP_CELSIUS hass config now resp) = Some fd0"
  shows "cache_inv fd0"
proof -
  from assms obtain k lat lon u fd fd1 where
    i: "ForeCastData_init k lat lon u now resp = (Returned, fd)"
    and c: "update_currently fd now = (Returned, fd1)"
    and l: "fd0 = fd1 \<or> (\<exists>conds nm out ss. sensors_loop conds nm now resp [] fd1 = (out, ss, fd0))"
    unfolding setup_platform_def setup_failed_def Let_def
    by (fastforce split: option.splits prod.splits outcome.splits exc.splits if_splits)
  from init_post[OF i] update_currently_post[OF _ _ c] have "cache_inv fd1"
    by blast
  with l show ?thesis
    using sensors_loop_inv by blast
qed

lemma run_polls_inv: "cache_inv fd \<Longrightarrow> cache_inv (run_polls fd ps)"
proof (induction ps arbitrary: fd)
  case Nil
  then show ?case
    by simp
next
  case (Cons p ps)
  obtain s now resp where p: "p = (s, now, resp)"
    by (cases p)
  obtain out s' fd' where su: "sensor_update s fd now resp = (out, s', fd')"
    by (cases "sensor_update s fd now resp")
  with Cons.prems have "cache_inv fd'"
    using sensor_update_post by blast
  with Cons.IH have "cache_inv (run_polls fd' ps)"
    by blast
  with p su show ?case
    by simp
qed
lemma example_setup_cache:
  "cache (setup_platform ''C'' example_hass example_config 0
            (Inr (example_forecast ''si'' ''first''))) = Some example_cache"
  by code_simp

lemma example_polled:
  "run_polls example_cache example_polls =
     example_cache
       \<lparr>data := Some (example_forecast ''si'' ''second''),
        data_currently := Some (currently (example_forecast ''si'' ''second'')),
        data_minutely := Some (minutely (example_forecast ''si'' ''second'')),
        last_update := Some 121, last_update_currently := Some 121,
        last_update_minutely := Some 131,
        fetches := 2, data_at := 121, currently_at := 121, minutely_at := 121\<rparr>"
  by code_simp

lemma example_read:
  "sensor_update (example_sensor ''minutely_summary'')
     (run_polls example_cache example_polls) 245 (Inr (example_forecast ''si'' ''third'')) =
   (Returned,
    (example_sensor ''minutely_summary'')\<lparr>priv_state := PStr ''second''\<rparr>,
    (run_polls example_cache example_polls)
      \<lparr>data := Some (example_forecast ''si'' ''third''), last_update := Some 245,
       fetches := 3, data_at := 245\<rparr>)"
  by code_simp
text \<open>
  Claim C2, as the spec states it, fails. The example platform is set up at time 0; the
  temperature sensor is polled at 121 (a new payload is fetched), the minutely-summary
  sensor at 131 (its sub-view is taken from that payload) and again at 245. The last
  read fetches a third payload, but the throttle of \<open>update_minutely\<close> is still
  active: the sensor's state is the summary of the payload fetched at 121, which is 124
  seconds old.
\<close>

theorem sensor_reads_stale_sub_view_counterexample:
  "cache (setup_platform ''C'' example_hass example_config 0
            (Inr (example_forecast ''si'' ''first''))) = Some example_cache \<and>
   fst (sensor_update (example_sensor ''minutely_summary'')
          (run_polls example_cache example_polls) 245
          (Inr (example_forecast ''si'' ''third''))) = Returned \<and>
   priv_state (fst (snd (sensor_update (example_sensor ''minutely_summary'')
          (run_polls example_cache example_polls) 245
          (Inr (example_forecast ''si'' ''third''))))) = PStr ''second'' \<and>
   data (snd (snd (sensor_update (example_sensor ''minutely_summary'')
          (run_polls example_cache example_polls) 245
          (Inr (example_forecast ''si'' ''third''))))) =
     Some (example_forecast ''si'' ''third'') \<and>
   consumed_at ''minutely_summary''
     (snd (snd (sensor_update (example_sensor ''minutely_summary'')
          (run_polls example_cache example_polls) 245
          (Inr (example_forecast ''si'' ''third''))))) = 121 \<and>
   \<not> read_fresh ''minutely_summary'' 245
     (snd (snd (sensor_update (example_sensor ''minutely_summary'')
          (run_polls example_cache example_polls) 245
          (Inr (example_forecast ''si'' ''third'')))))"
  unfolding example_read
  by (simp add: example_setup_cache example_polled read_fresh_def consumed_at_def
      MIN_TIME_BETWEEN_UPDATES_def)

text \<open>
  Claim C2, amended. After the platform's setup and any sequence of polls, take a call of
  \<open>ForeCastSensor.update\<close> at time \<open>now\<close>. If the payload in the cache is a full
  interval old or older when the call begins, the call fetches. If the call returns, the
  payload in the cache was fetched less than one interval before \<open>now\<close>, and the
  sub-view the sensor consumes was taken from a payload fetched less than two intervals
  before \<open>now\<close>.
\<close>

theorem sensor_read_freshness:
  "cache (setup_platform TEMP_CELSIUS hass config t0 resp0) = Some fd0 \<and>
   sensor_update s (run_polls fd0 ps) now resp = (out, s', fd') \<longrightarrow>
     (MIN_TIME_BETWEEN_UPDATES \<le> now - data_at (run_polls fd0 ps) \<longrightarrow>
        fetches fd' = Suc (fetches (run_polls fd0 ps))) \<and>
     (out = Returned \<longrightarrow>
        now - data_at fd' < MIN_TIME_BETWEEN_UPDATES \<and>
        now - consumed_at (sensor_type s) fd' < 2 * MIN_TIME_BETWEEN_UPDATES)"
proof
  assume h: "cache (setup_platform TEMP_CELSIUS hass config t0 resp0) = Some fd0 \<and>
   sensor_update s (run_polls fd0 ps) now resp = (out, s', fd')"
  then have "cache_inv fd0"
    using setup_platform_inv by blast
  then have "cache_inv (run_polls fd0 ps)"
    by (rule run_polls_inv)
  with h show "(MIN_TIME_BETWEEN_UPDATES \<le> now - data_at (run_polls fd0 ps) \<longrightarrow>
        fetches fd' = Suc (fetches (run_polls fd0 ps))) \<and>
     (out = Returned \<longrightarrow>
        now - data_at fd' < MIN_TIME_BETWEEN_UPDATES \<and>
        now - consumed_at (sensor_type s) fd' < 2 * MIN_TIME_BETWEEN_UPDATES)"
    using sensor_update_post[of "run_polls fd0 ps" s now resp out s' fd'] by blast
qed

text \<open>
  An instance: the read at 245 of the trace above. It fetches (the third fetch), the
  payload it leaves is 0 seconds old, and the sub-view it consumes is 124 seconds old.
\<close>

theorem sensor_read_freshness_witness:
  "fetches (snd (snd (sensor_update (example_sensor ''minutely_summary'')
          (run_polls example_cache example_polls) 245
          (Inr (example_forecast ''si'' ''third''))))) = 3 \<and>
   245 - data_at (snd (snd (sensor_update (example_sensor ''minutely_summary'')
          (run_polls example_cache example_polls) 245
          (Inr (example_forecast ''si'' ''third''))))) < MIN_TIME_BETWEEN_UPDATES \<and>
   245 - consumed_at ''minutely_summary''
     (snd (snd (sensor_update (example_sensor ''minutely_summary'')
          (run_polls example_cache example_polls) 245
          (Inr (example_forecast ''si'' ''third''))))) < 2 * MIN_TIME_BETWEEN_UPDATES"
proof -
  let ?s = "example_sensor ''minutely_summary''"
  let ?r = "Inr (example_forecast ''si'' ''third'') :: fetch_exc + forecast"
  let ?fd = "run_polls example_cache example_polls"
  let ?read = "sensor_update ?s ?fd 245 ?r"
  have hyp: "cache (setup_platform ''C'' example_hass example_config 0
                      (Inr (example_forecast ''si'' ''first''))) = Some example_cache \<and>
      ?read = (fst ?read, fst (snd ?read), snd (snd ?read))"
    by (simp add: example_setup_cache)
  have old: "MIN_TIME_BETWEEN_UPDATES \<le> 245 - data_at ?fd"
    by (simp add: example_polled MIN_TIME_BETWEEN_UPDATES_def)
  have ret: "fst ?read = Returned"
    by (simp add: example_read)
  have ty: "sensor_type ?s = ''minutely_summary''"
    by (simp add: example_sensor_def)
  have before: "fetches ?fd = 2"
    by (simp add: example_polled)
  from sensor_read_freshness
         [of "''C''" example_hass example_config 0
             "Inr (example_forecast ''si'' ''first'')" example_cache ?s example_polls 245 ?r
             "fst ?read" "fst (snd ?read)" "snd (snd ?read)"]
       hyp old ret
  have "fetches (snd (snd ?read)) = Suc (fetches ?fd) \<and>
        245 - data_at (snd (snd ?read)) < MIN_TIME_BETWEEN_UPDATES \<and>
        245 - consumed_at (sensor_type ?s) (snd (snd ?read)) < 2 * MIN_TIME_BETWEEN_UPDATES"
    by blast
  then show ?thesis
    by (simp only: ty before) simp
qed

end
